theory Spec2Isabelle
  imports Complex_Main
begin

section \<open>The VST3 host library: data model\<close>

text \<open>
  The development embeds \<^verbatim>\<open>src/lib/vst3_host.cpp\<close>. The C API works on a raw
  \<^verbatim>\<open>VST3Plugin*\<close>; a pointer is an address, \<open>nullptr\<close> is address 0, and the C++ free
  store is a partial map from addresses to structs. Reading through a non-null pointer
  that the free store does not hold (a deleted or wild handle) is a fault of the model.
\<close>

type_synonym ptr = nat

definition nullptr :: ptr where
  "nullptr = 0"

type_synonym tresult = int

text \<open>The SDK's success code (\<^verbatim>\<open>kResultOk\<close> is 0 in \<^verbatim>\<open>pluginterfaces/base/funknown.h\<close>).\<close>

definition kResultOk :: tresult where
  "kResultOk = 0"

text \<open>The SDK's category tag of an audio effect class (\<^verbatim>\<open>ivstaudioprocessor.h\<close>).\<close>

definition kVstAudioEffectClass :: string where
  "kVstAudioEffectClass = ''Audio Module Class''"

type_synonym tuid = string

record ClassInfo =
  ci_ID :: tuid
  ci_name :: string
  ci_vendor :: string
  ci_category :: string

datatype bus_dir = kInput | kOutput

text \<open>
  The SDK's \<^verbatim>\<open>Event\<close> struct is a tagged union declared in \<^verbatim>\<open>ivstevents.h\<close>, not in
  this repository. Its note events have \<^verbatim>\<open>int16\<close> channel and pitch, \<^verbatim>\<open>float\<close> tuning
  and velocity and \<^verbatim>\<open>int32\<close> length and note id; its legacy CC event has a \<^verbatim>\<open>uint8\<close>
  controller number and \<^verbatim>\<open>int8\<close> channel, value and second value. The host assigns its
  \<^verbatim>\<open>int32_t\<close> arguments to these fields, so a value is converted to the field's type on
  the way in. The conversions are written out on the integers: the value is reduced
  modulo the field's range, as two's complement hardware does.
\<close>

definition to_int8 :: "int \<Rightarrow> int" where
  "to_int8 v = (v + 128) mod 256 - 128"

definition to_uint8 :: "int \<Rightarrow> int" where
  "to_uint8 v = v mod 256"

definition to_int16 :: "int \<Rightarrow> int" where
  "to_int16 v = (v + 32768) mod 65536 - 32768"

text \<open>
  A \<^verbatim>\<open>float\<close> is an IEEE binary32 number: 24 significant bits, rounded to nearest with
  ties to even. \<open>binade k y\<close> is the exponent \<open>e\<close> with \<open>2^e \<le> y < 2^(e+1)\<close> for a positive
  \<open>y\<close>, found in at most \<open>k\<close> halvings or doublings; 300 steps cover every binary32
  exponent. \<open>to_float32\<close> rounds a real to the nearest binary32 number; numbers of a
  magnitude of \<open>2^128\<close> and more, which binary32 turns into infinities, do not arise from
  the host's \<^verbatim>\<open>int32_t\<close> operands.
\<close>

fun binade :: "nat \<Rightarrow> real \<Rightarrow> int" where
  "binade 0 y = 0"
| "binade (Suc k) y =
     (if 2 \<le> y then binade k (y / 2) + 1
      else if y < 1 then binade k (2 * y) - 1
      else 0)"

definition round_half_even :: "real \<Rightarrow> int" where
  "round_half_even y =
     (let f = \<lfloor>y\<rfloor>
      in if y - of_int f < 1 / 2 then f
         else if 1 / 2 < y - of_int f then f + 1
         else if even f then f else f + 1)"

definition pow2 :: "int \<Rightarrow> real" where
  "pow2 e = (if 0 \<le> e then 2 ^ nat e else 1 / 2 ^ nat (- e))"

definition to_float32 :: "real \<Rightarrow> real" where
  "to_float32 x =
     (if x = 0 then 0
      else let e = max (binade 300 \<bar>x\<bar>) (- 126);
               ulp = pow2 (e - 23)
           in sgn x * of_int (round_half_even (\<bar>x\<bar> / ulp)) * ulp)"

text \<open>Each field of an event holds the value after the conversion to the field's type.\<close>

datatype event_data =
    NoteOnEvent int int real real int int
      \<comment> \<open>channel, pitch, tuning, velocity, length, noteId\<close>
  | NoteOffEvent int int real int real
      \<comment> \<open>channel, pitch, velocity, noteId, tuning\<close>
  | LegacyMIDICCOutEvent int int int int
      \<comment> \<open>controlNumber, channel, value, value2\<close>

text \<open>\<^verbatim>\<open>Event::kIsLive\<close> is bit 0 of the flags.\<close>

definition kIsLive :: int where
  "kIsLive = 1"

record Event =
  busIndex :: int
  sampleOffset :: int
  ppqPosition :: real
  flags :: int
  payload :: event_data

text \<open>
  Modelled from the spec: the SDK's \<^verbatim>\<open>HostProcessData\<close> (declared in
  \<^verbatim>\<open>processdata.h\<close>, not in this repository), reduced to what the host reads and
  writes: the sample count, the bus counts that \<^verbatim>\<open>prepare\<close> sets, and for bus 0 of each
  direction the array of channel pointers and its channel count. An array is a function
  from indices to pointers.
\<close>

record HostProcessData =
  numSamples :: int
  numInputs :: int
  numOutputs :: int
  in_channelBuffers32 :: "nat \<Rightarrow> ptr"
  in_numChannels :: int
  out_channelBuffers32 :: "nat \<Rightarrow> ptr"
  out_numChannels :: int

text \<open>
  \<^verbatim>\<open>struct VST3Plugin\<close>. The three interface pointers are modelled by whether they are
  non-null; the module reference by the bundle path it was created from. The input event
  list is the queue of pending events. The output event list and the two
  parameter-change objects are only handed to the plug-in and never read or written by
  the host, and the two buffer vectors are never used; they are left out.
\<close>

record VST3Plugin =
  module :: "string option"
  component :: bool
  processor :: bool
  controller :: bool
  num_inputs :: int
  num_outputs :: int
  sample_rate :: real
  max_block_size :: int
  processData :: HostProcessData
  inputEvents :: "Event list"

subsection \<open>The plug-in as an environment\<close>

text \<open>
  Every call that crosses into the loaded module is listed here. The host's trace records
  each call in order, tagged with the handle of the instance whose object receives it.
\<close>

datatype abi_call =
    CreateComponent tuid
  | ComponentInitialize
  | QueryAudioProcessor
  | GetControllerClassId
  | CreateController tuid
  | ControllerInitialize
  | QueryComponentCP
  | QueryControllerCP
  | ComponentConnect
  | ControllerConnect
  | GetBusCount bus_dir
  | GetBusInfo bus_dir
  | GetParameterCount
  | GetParamNormalized int
  | SetParamNormalized int real
  | ActivateBus bus_dir bool
  | SetupProcessing real int
  | ComponentSetActive bool
  | SetProcessing bool
  | Process int int int "Event list"
      \<comment> \<open>numSamples, input channels, output channels, the attached input events\<close>
  | ComponentDisconnect
  | ControllerDisconnect
  | ControllerTerminate
  | ComponentTerminate

datatype trace_event =
    ModuleCreate string
  | ModuleRelease string
  | Call ptr abi_call

text \<open>
  The third-party module is a black box. Its behaviour is a parameter of every host
  function: what each call answers, given the history of all earlier calls. A call that
  returns a status answers through \<open>tresult_of\<close>, one that returns an object or an
  interface (null or not) through \<open>creates\<close>, one that returns a count through
  \<open>count_of\<close>, the normalized parameter value through \<open>value_of\<close> and the controller's
  class id through \<open>cid_of\<close>. \<open>module_classes\<close> is the class list of the factory of the
  module at a path, or \<open>None\<close> where no module loads.
\<close>

record plugin_env =
  module_classes :: "string \<Rightarrow> ClassInfo list option"
  creates :: "trace_event list \<Rightarrow> ptr \<Rightarrow> abi_call \<Rightarrow> bool"
  tresult_of :: "trace_event list \<Rightarrow> ptr \<Rightarrow> abi_call \<Rightarrow> tresult"
  count_of :: "trace_event list \<Rightarrow> ptr \<Rightarrow> abi_call \<Rightarrow> int"
  value_of :: "trace_event list \<Rightarrow> ptr \<Rightarrow> abi_call \<Rightarrow> real"
  cid_of :: "trace_event list \<Rightarrow> ptr \<Rightarrow> abi_call \<Rightarrow> tuid"

subsection \<open>The host's state\<close>

text \<open>One diagnostic per line the host writes to the standard error stream.\<close>

datatype diagnostic =
    NullBundlePath
  | ModuleLoadFailed
  | NoAudioEffectClass
  | ComponentCreateFailed
  | ComponentInitFailed
  | NoAudioProcessor
  | SetupProcessingFailed
  | ActivateComponentFailed
  | StartProcessingFailed

text \<open>
  The global host context (created on the first load), the free store with the number
  of structs allocated so far (\<^verbatim>\<open>new\<close> hands out the next address, never 0), the
  trace of calls into the module and the error stream.
\<close>

record world =
  gHostContext :: bool
  heap :: "ptr \<Rightarrow> VST3Plugin option"
  allocated :: nat
  trace :: "trace_event list"
  err_log :: "diagnostic list"

datatype fault = InvalidHandle | NullDereference

definition world0 :: world where
  "world0 = \<lparr>gHostContext = False, heap = (\<lambda>_. None), allocated = 0, trace = [], err_log = []\<rparr>"

definition record_call :: "ptr \<Rightarrow> abi_call \<Rightarrow> world \<Rightarrow> world" where
  "record_call h c w = w\<lparr>trace := trace w @ [Call h c]\<rparr>"

definition report :: "diagnostic \<Rightarrow> world \<Rightarrow> world" where
  "report d w = w\<lparr>err_log := err_log w @ [d]\<rparr>"

definition store :: "ptr \<Rightarrow> VST3Plugin \<Rightarrow> world \<Rightarrow> world" where
  "store h p w = w\<lparr>heap := (heap w)(h \<mapsto> p)\<rparr>"

definition delete :: "ptr \<Rightarrow> world \<Rightarrow> world" where
  "delete h w = w\<lparr>heap := (heap w)(h := None)\<rparr>"

section \<open>The host functions\<close>

subsection \<open>Loading\<close>

text \<open>The scan of \<^verbatim>\<open>vst3_load_plugin\<close> over the factory's class list, leaving at the first hit.\<close>

fun find_audio_effect :: "ClassInfo list \<Rightarrow> ClassInfo option" where
  "find_audio_effect [] = None"
| "find_audio_effect (classInfo # rest) =
     (if ci_category classInfo = kVstAudioEffectClass then Some classInfo
      else find_audio_effect rest)"

definition release_module :: "string \<Rightarrow> world \<Rightarrow> world" where
  "release_module path w = w\<lparr>trace := trace w @ [ModuleRelease path]\<rparr>"

definition empty_process_data :: HostProcessData where
  "empty_process_data =
     \<lparr>numSamples = 0, numInputs = 0, numOutputs = 0,
      in_channelBuffers32 = (\<lambda>_. nullptr), in_numChannels = 0,
      out_channelBuffers32 = (\<lambda>_. nullptr), out_numChannels = 0\<rparr>"

definition new_plugin :: "string \<Rightarrow> VST3Plugin" where
  "new_plugin path =
     \<lparr>module = Some path, component = False, processor = False, controller = False,
      num_inputs = 0, num_outputs = 0, sample_rate = 0, max_block_size = 0,
      processData = empty_process_data, inputEvents = []\<rparr>"

text \<open>
  The block under \<^verbatim>\<open>// Get controller\<close>: it returns whether the controller pointer is
  non-null afterwards. The status of the controller's \<^verbatim>\<open>initialize\<close> is not looked at.
\<close>

definition load_controller :: "plugin_env \<Rightarrow> ptr \<Rightarrow> world \<Rightarrow> bool \<times> world" where
  "load_controller env h w =
     (let r = tresult_of env (trace w) h GetControllerClassId;
          controllerCID = cid_of env (trace w) h GetControllerClassId;
          w1 = record_call h GetControllerClassId w
      in if r \<noteq> kResultOk then (False, w1)
         else
           let made = creates env (trace w1) h (CreateController controllerCID);
               w2 = record_call h (CreateController controllerCID) w1
           in if \<not> made then (False, w2)
              else
                let w3 = record_call h ControllerInitialize w2;
                    componentCP = creates env (trace w3) h QueryComponentCP;
                    w4 = record_call h QueryComponentCP w3;
                    controllerCP = creates env (trace w4) h QueryControllerCP;
                    w5 = record_call h QueryControllerCP w4
                in if componentCP \<and> controllerCP
                   then (True, record_call h ControllerConnect (record_call h ComponentConnect w5))
                   else (True, w5))"

text \<open>The channel count of bus 0 of one direction; \<open>cur\<close> is the field's value so far.\<close>

definition query_bus :: "plugin_env \<Rightarrow> ptr \<Rightarrow> bus_dir \<Rightarrow> int \<Rightarrow> int \<Rightarrow> world \<Rightarrow> int \<times> world" where
  "query_bus env h dir numBuses cur w =
     (if numBuses > 0
      then let r = tresult_of env (trace w) h (GetBusInfo dir);
               channelCount = count_of env (trace w) h (GetBusInfo dir);
               w1 = record_call h (GetBusInfo dir) w
           in (if r = kResultOk then channelCount else cur, w1)
      else (cur, w))"

text \<open>
  \<^verbatim>\<open>vst3_load_plugin\<close> from \<^verbatim>\<open>new VST3Plugin()\<close> on. The struct is local to the
  function until it is returned; on every failure it is deleted again and the last
  reference to the module goes with it, so only the successful path stores it.
\<close>

definition instantiate :: "plugin_env \<Rightarrow> string \<Rightarrow> ClassInfo \<Rightarrow> world \<Rightarrow> ptr \<times> world" where
  "instantiate env path audioEffectClass w =
     (let h = Suc (allocated w);
          w1 = w\<lparr>allocated := h\<rparr>;
          made = creates env (trace w1) h (CreateComponent (ci_ID audioEffectClass));
          w2 = record_call h (CreateComponent (ci_ID audioEffectClass)) w1
      in if \<not> made then (nullptr, release_module path (report ComponentCreateFailed w2))
         else
           let r = tresult_of env (trace w2) h ComponentInitialize;
               w3 = record_call h ComponentInitialize w2
           in if r \<noteq> kResultOk
              then (nullptr, release_module path (report ComponentInitFailed w3))
              else
                let proc = creates env (trace w3) h QueryAudioProcessor;
                    w4 = record_call h QueryAudioProcessor w3
                in if \<not> proc
                   then (nullptr,
                         release_module path
                           (record_call h ComponentTerminate (report NoAudioProcessor w4)))
                   else
                     let (ctl, w5) = load_controller env h w4;
                         numInputBuses = count_of env (trace w5) h (GetBusCount kInput);
                         w6 = record_call h (GetBusCount kInput) w5;
                         numOutputBuses = count_of env (trace w6) h (GetBusCount kOutput);
                         w7 = record_call h (GetBusCount kOutput) w6;
                         (n_in, w8) = query_bus env h kInput numInputBuses 0 w7;
                         (n_out, w9) = query_bus env h kOutput numOutputBuses 0 w8
                     in (h, store h ((new_plugin path)
                               \<lparr>component := True, processor := True, controller := ctl,
                                num_inputs := n_in, num_outputs := n_out\<rparr>) w9))"

definition vst3_load_plugin :: "plugin_env \<Rightarrow> string option \<Rightarrow> world \<Rightarrow> ptr \<times> world" where
  "vst3_load_plugin env bundle_path w =
     (case bundle_path of
        None \<Rightarrow> (nullptr, report NullBundlePath w)
      | Some path \<Rightarrow>
          let w0 = w\<lparr>gHostContext := True\<rparr>
          in (case module_classes env path of
                None \<Rightarrow> (nullptr, report ModuleLoadFailed w0)
              | Some classInfos \<Rightarrow>
                  (let w1 = w0\<lparr>trace := trace w0 @ [ModuleCreate path]\<rparr>
                   in (case find_audio_effect classInfos of
                         None \<Rightarrow> (nullptr, release_module path (report NoAudioEffectClass w1))
                       | Some audioEffectClass \<Rightarrow> instantiate env path audioEffectClass w1))))"

subsection \<open>Parameters\<close>

definition vst3_get_parameter_count :: "plugin_env \<Rightarrow> ptr \<Rightarrow> world \<Rightarrow> fault + (int \<times> world)" where
  "vst3_get_parameter_count env plugin w =
     (if plugin = nullptr then Inr (0, w)
      else case heap w plugin of
             None \<Rightarrow> Inl InvalidHandle
           | Some p \<Rightarrow>
               if \<not> controller p then Inr (0, w)
               else Inr (count_of env (trace w) plugin GetParameterCount,
                         record_call plugin GetParameterCount w))"



subsection \<open>Processing setup and activation\<close>

text \<open>
  Modelled from the spec: \<^verbatim>\<open>HostProcessData::prepare\<close> (SDK code, not in this
  repository) prepares the buffer structure for the component's buses; of what it does
  the host only reads the two bus counts later, which are the component's answers.
\<close>

definition prepare :: "plugin_env \<Rightarrow> ptr \<Rightarrow> int \<Rightarrow> VST3Plugin \<Rightarrow> world \<Rightarrow> VST3Plugin \<times> world" where
  "prepare env h bufferSamples p w =
     (let n_in = count_of env (trace w) h (GetBusCount kInput);
          w1 = record_call h (GetBusCount kInput) w;
          n_out = count_of env (trace w1) h (GetBusCount kOutput);
          w2 = record_call h (GetBusCount kOutput) w1
      in (p\<lparr>processData := (processData p)\<lparr>numInputs := n_in, numOutputs := n_out\<rparr>\<rparr>, w2))"

definition activate_buses :: "ptr \<Rightarrow> VST3Plugin \<Rightarrow> world \<Rightarrow> world" where
  "activate_buses h p w =
     (let w1 = (if num_inputs p > 0 then record_call h (ActivateBus kInput True) w else w)
      in if num_outputs p > 0 then record_call h (ActivateBus kOutput True) w1 else w1)"

definition vst3_setup_processing :: "plugin_env \<Rightarrow> ptr \<Rightarrow> real \<Rightarrow> int \<Rightarrow> world \<Rightarrow> fault + (int \<times> world)" where
  "vst3_setup_processing env plugin rate max_samples_per_block w =
     (if plugin = nullptr then Inr (- 1, w)
      else case heap w plugin of
             None \<Rightarrow> Inl InvalidHandle
           | Some p \<Rightarrow>
               if \<not> processor p then Inr (- 1, w)
               else
                 let p1 = p\<lparr>sample_rate := rate, max_block_size := max_samples_per_block\<rparr>;
                     w1 = store plugin p1 w
                 in if (num_inputs p1 > 0 \<or> num_outputs p1 > 0) \<and> \<not> component p1
                    then Inl NullDereference
                    else
                      let w2 = activate_buses plugin p1 w1;
                          r = tresult_of env (trace w2) plugin
                                (SetupProcessing rate max_samples_per_block);
                          w3 = record_call plugin (SetupProcessing rate max_samples_per_block) w2
                      in if r \<noteq> kResultOk then Inr (- 1, report SetupProcessingFailed w3)
                         else if \<not> component p1 then Inl NullDereference
                         else
                           let (p2, w4) = prepare env plugin max_samples_per_block p1 w3
                           in Inr (0, store plugin p2 w4))"

definition vst3_set_active :: "plugin_env \<Rightarrow> ptr \<Rightarrow> bool \<Rightarrow> world \<Rightarrow> fault + (int \<times> world)" where
  "vst3_set_active env plugin active w =
     (if plugin = nullptr then Inr (- 1, w)
      else case heap w plugin of
             None \<Rightarrow> Inl InvalidHandle
           | Some p \<Rightarrow>
               if \<not> component p then Inr (- 1, w)
               else if active
               then
                 let r = tresult_of env (trace w) plugin (ComponentSetActive True);
                     w1 = record_call plugin (ComponentSetActive True) w
                 in if r \<noteq> kResultOk then Inr (- 1, report ActivateComponentFailed w1)
                    else if \<not> processor p then Inl NullDereference
                    else
                      let r2 = tresult_of env (trace w1) plugin (SetProcessing True);
                          w2 = record_call plugin (SetProcessing True) w1
                      in if r2 \<noteq> kResultOk
                         then Inr (- 1, report StartProcessingFailed w2)
                         else Inr (0, w2)
               else if \<not> processor p then Inl NullDereference
               else Inr (0, record_call plugin (ComponentSetActive False)
                              (record_call plugin (SetProcessing False) w)))"

subsection \<open>The block call\<close>

text \<open>
  The two binding loops: channel \<open>ch\<close> of the caller's array is written to slot \<open>ch\<close> for
  every \<open>ch\<close> below both the call's channel count and the instance's.
\<close>

definition bind_channels :: "int \<Rightarrow> int \<Rightarrow> (nat \<Rightarrow> ptr) \<Rightarrow> (nat \<Rightarrow> ptr) \<Rightarrow> (nat \<Rightarrow> ptr)" where
  "bind_channels num_channels plugin_channels buffers channelBuffers32 =
     fold (\<lambda>ch bufs. bufs(ch := buffers ch))
       [0..<nat (min num_channels plugin_channels)] channelBuffers32"

definition bind_inputs :: "VST3Plugin \<Rightarrow> (nat \<Rightarrow> ptr) \<Rightarrow> int \<Rightarrow> HostProcessData \<Rightarrow> HostProcessData" where
  "bind_inputs p inputs num_input_channels pd =
     (if num_input_channels > 0 \<and> numInputs pd > 0
      then pd\<lparr>in_channelBuffers32 :=
                 bind_channels num_input_channels (num_inputs p) inputs (in_channelBuffers32 pd),
              in_numChannels := num_input_channels\<rparr>
      else pd)"

definition bind_outputs :: "VST3Plugin \<Rightarrow> (nat \<Rightarrow> ptr) \<Rightarrow> int \<Rightarrow> HostProcessData \<Rightarrow> HostProcessData" where
  "bind_outputs p outputs num_output_channels pd =
     (if num_output_channels > 0 \<and> numOutputs pd > 0
      then pd\<lparr>out_channelBuffers32 :=
                 bind_channels num_output_channels (num_outputs p) outputs (out_channelBuffers32 pd),
              out_numChannels := num_output_channels\<rparr>
      else pd)"

text \<open>
  The call the plug-in sees: the sample count, the channel counts of the bound buses and
  the input events attached to the block.
\<close>

definition process_call :: "VST3Plugin \<Rightarrow> abi_call" where
  "process_call p =
     Process (numSamples (processData p)) (in_numChannels (processData p))
       (out_numChannels (processData p)) (inputEvents p)"

definition bind_block ::
  "VST3Plugin \<Rightarrow> (nat \<Rightarrow> ptr) \<Rightarrow> (nat \<Rightarrow> ptr) \<Rightarrow> int \<Rightarrow> int \<Rightarrow> int \<Rightarrow> VST3Plugin" where
  "bind_block p inputs outputs num_samples num_input_channels num_output_channels =
     p\<lparr>processData :=
         bind_outputs p outputs num_output_channels
           (bind_inputs p inputs num_input_channels
              ((processData p)\<lparr>numSamples := num_samples\<rparr>))\<rparr>"

definition vst3_process ::
  "plugin_env \<Rightarrow> ptr \<Rightarrow> (nat \<Rightarrow> ptr) \<Rightarrow> (nat \<Rightarrow> ptr) \<Rightarrow> int \<Rightarrow> int \<Rightarrow> int \<Rightarrow> world
     \<Rightarrow> fault + (int \<times> world)" where
  "vst3_process env plugin inputs outputs num_samples num_input_channels num_output_channels w =
     (if plugin = nullptr then Inr (- 1, w)
      else case heap w plugin of
             None \<Rightarrow> Inl InvalidHandle
           | Some p \<Rightarrow>
               if \<not> processor p then Inr (- 1, w)
               else
                 let p1 = bind_block p inputs outputs num_samples
                            num_input_channels num_output_channels;
                     r = tresult_of env (trace w) plugin (process_call p1);
                     w1 = record_call plugin (process_call p1) (store plugin p1 w)
                 in if r \<noteq> kResultOk then Inr (- 1, w1)
                    else Inr (0, store plugin (p1\<lparr>inputEvents := []\<rparr>) w1))"

subsection \<open>Event submission\<close>

text \<open>
  The SDK's \<^verbatim>\<open>EventList\<close> (\<^verbatim>\<open>eventlist.h\<close>, not in this repository) is an array of
  \<^verbatim>\<open>maxSize\<close> events with a fill count. The struct's list is default-constructed, which
  gives it room for 50 events. \<^verbatim>\<open>addEvent\<close> stores the event behind the last one when
  there is room and refuses it otherwise; the host does not look at its status.
  \<^verbatim>\<open>clear\<close> resets the fill count.
\<close>

definition maxSize :: nat where
  "maxSize = 50"

definition addEvent :: "Event \<Rightarrow> VST3Plugin \<Rightarrow> VST3Plugin" where
  "addEvent e p =
     (if length (inputEvents p) < maxSize then p\<lparr>inputEvents := inputEvents p @ [e]\<rparr>
      else p)"

definition live_event :: "int \<Rightarrow> event_data \<Rightarrow> Event" where
  "live_event sample_offset d =
     \<lparr>busIndex = 0, sampleOffset = sample_offset, ppqPosition = 0, flags = kIsLive,
      payload = d\<rparr>"

definition submit :: "ptr \<Rightarrow> Event list \<Rightarrow> world \<Rightarrow> fault + (int \<times> world)" where
  "submit plugin events w =
     (if plugin = nullptr then Inr (- 1, w)
      else case heap w plugin of
             None \<Rightarrow> Inl InvalidHandle
           | Some p \<Rightarrow> Inr (0, store plugin (fold addEvent events p) w))"

text \<open>
  \<^verbatim>\<open>velocity / 127.0f\<close>: the integer is converted to \<^verbatim>\<open>float\<close> and divided by 127 in
  \<^verbatim>\<open>float\<close> arithmetic.
\<close>

definition normalized_velocity :: "int \<Rightarrow> real" where
  "normalized_velocity velocity = to_float32 (to_float32 (real_of_int velocity) / 127)"

definition vst3_send_note_on :: "ptr \<Rightarrow> int \<Rightarrow> int \<Rightarrow> int \<Rightarrow> int \<Rightarrow> world \<Rightarrow> fault + (int \<times> world)" where
  "vst3_send_note_on plugin channel note velocity sample_offset w =
     submit plugin
       [live_event sample_offset
          (NoteOnEvent (to_int16 channel) (to_int16 note) 0 (normalized_velocity velocity) 0 (- 1))]
       w"

definition vst3_send_note_off :: "ptr \<Rightarrow> int \<Rightarrow> int \<Rightarrow> int \<Rightarrow> world \<Rightarrow> fault + (int \<times> world)" where
  "vst3_send_note_off plugin channel note sample_offset w =
     submit plugin
       [live_event sample_offset (NoteOffEvent (to_int16 channel) (to_int16 note) 0 (- 1) 0)] w"

definition vst3_send_midi_cc :: "ptr \<Rightarrow> int \<Rightarrow> int \<Rightarrow> int \<Rightarrow> int \<Rightarrow> world \<Rightarrow> fault + (int \<times> world)" where
  "vst3_send_midi_cc plugin channel cc v sample_offset w =
     submit plugin
       [live_event sample_offset
          (LegacyMIDICCOutEvent (to_uint8 cc) (to_int8 channel) (to_int8 v) 0)] w"

definition vst3_send_program_change :: "ptr \<Rightarrow> int \<Rightarrow> int \<Rightarrow> int \<Rightarrow> world \<Rightarrow> fault + (int \<times> world)" where
  "vst3_send_program_change plugin channel program sample_offset w =
     submit plugin
       [live_event sample_offset (LegacyMIDICCOutEvent 0 (to_int8 channel) 0 0),
        live_event sample_offset (LegacyMIDICCOutEvent 32 (to_int8 channel) (to_int8 program) 0)]
       w"

subsection \<open>Unloading\<close>

definition disconnect :: "plugin_env \<Rightarrow> ptr \<Rightarrow> VST3Plugin \<Rightarrow> world \<Rightarrow> world" where
  "disconnect env h p w =
     (if component p \<and> controller p
      then let componentCP = creates env (trace w) h QueryComponentCP;
               w1 = record_call h QueryComponentCP w;
               controllerCP = creates env (trace w1) h QueryControllerCP;
               w2 = record_call h QueryControllerCP w1
           in if componentCP \<and> controllerCP
              then record_call h ControllerDisconnect (record_call h ComponentDisconnect w2)
              else w2
      else w)"

definition terminate_interfaces :: "ptr \<Rightarrow> VST3Plugin \<Rightarrow> world \<Rightarrow> world" where
  "terminate_interfaces h p w =
     (let w1 = (if controller p then record_call h ControllerTerminate w else w)
      in if component p then record_call h ComponentTerminate w1 else w1)"

definition drop_module :: "VST3Plugin \<Rightarrow> world \<Rightarrow> world" where
  "drop_module p w = (case module p of None \<Rightarrow> w | Some path \<Rightarrow> release_module path w)"

text \<open>
  \<^verbatim>\<open>vst3_unload_plugin\<close>. The function clears the struct's four references and then
  deletes the struct; in the model the deletion removes the struct from the free store.
\<close>

definition vst3_unload_plugin :: "plugin_env \<Rightarrow> ptr \<Rightarrow> world \<Rightarrow> fault + world" where
  "vst3_unload_plugin env plugin w =
     (if plugin = nullptr then Inr w
      else case heap w plugin of
             None \<Rightarrow> Inl InvalidHandle
           | Some p \<Rightarrow>
               Inr (delete plugin
                      (drop_module p (terminate_interfaces plugin p (disconnect env plugin p w)))))"

section \<open>Observations and a stub plug-in\<close>

text \<open>What a call returned, and the world it left, when it did not fault.\<close>

definition returned :: "fault + ('a \<times> world) \<Rightarrow> 'a option" where
  "returned r = (case r of Inl _ \<Rightarrow> None | Inr (x, _) \<Rightarrow> Some x)"

definition after :: "fault + ('a \<times> world) \<Rightarrow> world option" where
  "after r = (case r of Inl _ \<Rightarrow> None | Inr (_, w) \<Rightarrow> Some w)"

text \<open>Running the next call in the world the previous one left.\<close>

definition and_then ::
  "fault + ('a \<times> world) \<Rightarrow> (world \<Rightarrow> fault + ('b \<times> world)) \<Rightarrow> fault + ('b \<times> world)" where
  "and_then r f = (case r of Inl e \<Rightarrow> Inl e | Inr (_, w) \<Rightarrow> f w)"

text \<open>The events pending on a handle in a world.\<close>

definition pending :: "ptr \<Rightarrow> world \<Rightarrow> Event list option" where
  "pending h w = map_option inputEvents (heap w h)"

text \<open>
  Modelled from the spec: the state machine's activation of the component. The component
  of a handle is active after a history when the last \<^verbatim>\<open>setActive\<close> it accepted was
  \<^verbatim>\<open>setActive(true)\<close>. The history is scanned from its newest event.
\<close>

definition accepted_set_active ::
  "(trace_event list \<Rightarrow> ptr \<Rightarrow> abi_call \<Rightarrow> tresult) \<Rightarrow> ptr \<Rightarrow> trace_event list \<Rightarrow> trace_event
     \<Rightarrow> bool option" where
  "accepted_set_active answer h older e =
     (case e of
        Call h' (ComponentSetActive b) \<Rightarrow>
          if h' = h \<and> answer (rev older) h (ComponentSetActive b) = kResultOk then Some b
          else None
      | _ \<Rightarrow> None)"

fun active_scan :: "(trace_event list \<Rightarrow> ptr \<Rightarrow> abi_call \<Rightarrow> tresult) \<Rightarrow> ptr \<Rightarrow> trace_event list \<Rightarrow> bool" where
  "active_scan answer h [] = False"
| "active_scan answer h (e # older) =
     (case accepted_set_active answer h older e of
        Some b \<Rightarrow> b
      | None \<Rightarrow> active_scan answer h older)"

definition component_active :: "plugin_env \<Rightarrow> ptr \<Rightarrow> trace_event list \<Rightarrow> bool" where
  "component_active env h tr = active_scan (tresult_of env) h (rev tr)"

text \<open>
  Modelled from the spec: the controller's normalized value store. The value of a
  parameter after a history is the one of the last \<^verbatim>\<open>setParamNormalized\<close> the
  controller accepted for it, and 0 before any.
\<close>

definition accepted_set_param ::
  "(trace_event list \<Rightarrow> ptr \<Rightarrow> abi_call \<Rightarrow> tresult) \<Rightarrow> ptr \<Rightarrow> int \<Rightarrow> trace_event list
     \<Rightarrow> trace_event \<Rightarrow> real option" where
  "accepted_set_param answer h i older e =
     (case e of
        Call h' (SetParamNormalized j v) \<Rightarrow>
          if h' = h \<and> j = i \<and> answer (rev older) h (SetParamNormalized j v) = kResultOk
          then Some v else None
      | _ \<Rightarrow> None)"

fun stored_scan :: "(trace_event list \<Rightarrow> ptr \<Rightarrow> abi_call \<Rightarrow> tresult) \<Rightarrow> ptr \<Rightarrow> int \<Rightarrow> trace_event list \<Rightarrow> real" where
  "stored_scan answer h i [] = 0"
| "stored_scan answer h i (e # older) =
     (case accepted_set_param answer h i older e of
        Some v \<Rightarrow> v
      | None \<Rightarrow> stored_scan answer h i older)"

definition stored_value :: "(trace_event list \<Rightarrow> ptr \<Rightarrow> abi_call \<Rightarrow> tresult) \<Rightarrow> trace_event list \<Rightarrow> ptr \<Rightarrow> int \<Rightarrow> real" where
  "stored_value answer tr h i = stored_scan answer h i (rev tr)"


text \<open>
  A stub module for concrete runs. The bundle \<^verbatim>\<open>demo.vst3\<close> exposes the classes B
  (effect), A (controller) and C (effect), in this order; \<^verbatim>\<open>tools.vst3\<close> exposes no
  effect class; no other path loads. Every object and interface exists, each direction
  has one bus of two channels, the controller has three parameters and stores what it
  accepts. The status of each call is the parameter \<open>status\<close>.
\<close>

definition class_B :: ClassInfo where
  "class_B = \<lparr>ci_ID = ''B'', ci_name = ''Bravo'', ci_vendor = ''acme'',
              ci_category = kVstAudioEffectClass\<rparr>"

definition class_A :: ClassInfo where
  "class_A = \<lparr>ci_ID = ''A'', ci_name = ''Alpha'', ci_vendor = ''acme'',
              ci_category = ''Component Controller Class''\<rparr>"

definition class_C :: ClassInfo where
  "class_C = \<lparr>ci_ID = ''C'', ci_name = ''Charlie'', ci_vendor = ''acme'',
              ci_category = kVstAudioEffectClass\<rparr>"

definition stub_classes :: "string \<Rightarrow> ClassInfo list option" where
  "stub_classes path =
     (if path = ''demo.vst3'' then Some [class_B, class_A, class_C]
      else if path = ''tools.vst3'' then Some [class_A]
      else None)"

definition stub_count :: "abi_call \<Rightarrow> int" where
  "stub_count c =
     (case c of GetBusCount _ \<Rightarrow> 1 | GetBusInfo _ \<Rightarrow> 2 | GetParameterCount \<Rightarrow> 3 | _ \<Rightarrow> 0)"

definition stub_value :: "(abi_call \<Rightarrow> tresult) \<Rightarrow> trace_event list \<Rightarrow> ptr \<Rightarrow> abi_call \<Rightarrow> real" where
  "stub_value status tr h c =
     (case c of GetParamNormalized i \<Rightarrow> stored_value (\<lambda>_ _. status) tr h i | _ \<Rightarrow> 0)"

definition stub_env :: "(abi_call \<Rightarrow> tresult) \<Rightarrow> plugin_env" where
  "stub_env status =
     \<lparr>module_classes = stub_classes,
      creates = (\<lambda>_ _ _. True),
      tresult_of = (\<lambda>_ _. status),
      count_of = (\<lambda>_ _. stub_count),
      value_of = stub_value status,
      cid_of = (\<lambda>_ _ _. ''A'')\<rparr>"

definition accept_all :: "abi_call \<Rightarrow> tresult" where
  "accept_all c = kResultOk"

text \<open>A status function that answers 1 (\<^verbatim>\<open>kResultFalse\<close>) to the calls of one kind.\<close>

definition reject_process :: "abi_call \<Rightarrow> tresult" where
  "reject_process c = (case c of Process _ _ _ _ \<Rightarrow> 1 | _ \<Rightarrow> kResultOk)"

definition reject_start :: "abi_call \<Rightarrow> tresult" where
  "reject_start c = (case c of SetProcessing _ \<Rightarrow> 1 | _ \<Rightarrow> kResultOk)"

definition reject_controller_init :: "abi_call \<Rightarrow> tresult" where
  "reject_controller_init c = (case c of ControllerInitialize \<Rightarrow> 1 | _ \<Rightarrow> kResultOk)"


definition reject_setup :: "abi_call \<Rightarrow> tresult" where
  "reject_setup c = (case c of SetupProcessing _ _ \<Rightarrow> 1 | _ \<Rightarrow> kResultOk)"

text \<open>The instance and the world that loading \<^verbatim>\<open>demo.vst3\<close> leaves.\<close>

definition demo_plugin :: VST3Plugin where
  "demo_plugin =
     (new_plugin ''demo.vst3'')
       \<lparr>component := True, processor := True, controller := True,
        num_inputs := 2, num_outputs := 2\<rparr>"

definition demo_trace :: "trace_event list" where
  "demo_trace =
     [ModuleCreate ''demo.vst3'',
      Call 1 (CreateComponent ''B''), Call 1 ComponentInitialize, Call 1 QueryAudioProcessor,
      Call 1 GetControllerClassId, Call 1 (CreateController ''A''), Call 1 ControllerInitialize,
      Call 1 QueryComponentCP, Call 1 QueryControllerCP,
      Call 1 ComponentConnect, Call 1 ControllerConnect,
      Call 1 (GetBusCount kInput), Call 1 (GetBusCount kOutput),
      Call 1 (GetBusInfo kInput), Call 1 (GetBusInfo kOutput)]"

definition demo_world :: world where
  "demo_world =
     \<lparr>gHostContext = True, heap = (\<lambda>_. None)(1 \<mapsto> demo_plugin), allocated = 1,
      trace = demo_trace, err_log = []\<rparr>"

text \<open>A caller's channel array whose entries are all null, for runs that bind nothing.\<close>

definition no_buffers :: "nat \<Rightarrow> ptr" where
  "no_buffers ch = nullptr"

text \<open>Two calls of \<^verbatim>\<open>vst3_unload_plugin\<close> with the same handle, one after the other.\<close>

definition unload_twice :: "plugin_env \<Rightarrow> ptr \<Rightarrow> world \<Rightarrow> fault + world" where
  "unload_twice env plugin w =
     (case vst3_unload_plugin env plugin w of
        Inl f \<Rightarrow> Inl f
      | Inr w1 \<Rightarrow> vst3_unload_plugin env plugin w1)"

text \<open>
  Modelled from the spec: the state machine's \<open>Configured\<close>. A handle is configured after
  a history when the processor accepted a \<^verbatim>\<open>setupProcessing\<close> for it.
\<close>

definition accepted_setup ::
  "(trace_event list \<Rightarrow> ptr \<Rightarrow> abi_call \<Rightarrow> tresult) \<Rightarrow> ptr \<Rightarrow> trace_event list \<Rightarrow> trace_event
     \<Rightarrow> bool" where
  "accepted_setup answer h older e =
     (case e of
        Call h' (SetupProcessing rate n) \<Rightarrow>
          h' = h \<and> answer (rev older) h (SetupProcessing rate n) = kResultOk
      | _ \<Rightarrow> False)"

fun setup_scan :: "(trace_event list \<Rightarrow> ptr \<Rightarrow> abi_call \<Rightarrow> tresult) \<Rightarrow> ptr \<Rightarrow> trace_event list \<Rightarrow> bool" where
  "setup_scan answer h [] = False"
| "setup_scan answer h (e # older) =
     (if accepted_setup answer h older e then True else setup_scan answer h older)"

definition configured :: "plugin_env \<Rightarrow> ptr \<Rightarrow> trace_event list \<Rightarrow> bool" where
  "configured env h tr = setup_scan (tresult_of env) h (rev tr)"

text \<open>The calls that configuring the demo instance for 44100 Hz and 512 samples adds.\<close>

definition setup_calls :: "trace_event list" where
  "setup_calls =
     [Call 1 (ActivateBus kInput True), Call 1 (ActivateBus kOutput True),
      Call 1 (SetupProcessing 44100 512),
      Call 1 (GetBusCount kInput), Call 1 (GetBusCount kOutput)]"

definition reject_controller_class :: "abi_call \<Rightarrow> tresult" where
  "reject_controller_class c = (case c of GetControllerClassId \<Rightarrow> 1 | _ \<Rightarrow> kResultOk)"

text \<open>
  The demo instance after \<^verbatim>\<open>vst3_setup_processing\<close> for 44100 Hz and blocks of 512
  samples, then after \<^verbatim>\<open>vst3_set_active\<close> with 1, then with a note-on queued.
\<close>

definition configured_plugin :: VST3Plugin where
  "configured_plugin =
     demo_plugin
       \<lparr>sample_rate := 44100, max_block_size := 512,
        processData := empty_process_data\<lparr>numInputs := 1, numOutputs := 1\<rparr>\<rparr>"

definition configured_world :: world where
  "configured_world =
     \<lparr>gHostContext = True, heap = (\<lambda>_. None)(1 \<mapsto> configured_plugin), allocated = 1,
      trace = demo_trace @ setup_calls, err_log = []\<rparr>"

definition active_trace :: "trace_event list" where
  "active_trace =
     demo_trace @ setup_calls @ [Call 1 (ComponentSetActive True), Call 1 (SetProcessing True)]"

definition active_world :: world where
  "active_world = configured_world\<lparr>trace := active_trace\<rparr>"

definition note_on_60 :: Event where
  "note_on_60 =
     \<lparr>busIndex = 0, sampleOffset = 0, ppqPosition = 0, flags = 1,
      payload = NoteOnEvent 0 60 0 1 0 (- 1)\<rparr>"

definition queued_world :: world where
  "queued_world = store 1 (configured_plugin\<lparr>inputEvents := [note_on_60]\<rparr>) active_world"

text \<open>
  The calls one \<^verbatim>\<open>vst3_unload_plugin\<close> makes for a struct \<open>p\<close> at handle \<open>h\<close> after the
  history \<open>tr\<close>, in order: the two connection-point queries and, when both answer, the two
  disconnects, if component and controller are both set; the controller's
  \<^verbatim>\<open>terminate\<close> if it is set; the component's if it is set; the release of the module.
\<close>

definition unload_calls :: "plugin_env \<Rightarrow> ptr \<Rightarrow> VST3Plugin \<Rightarrow> trace_event list \<Rightarrow> trace_event list" where
  "unload_calls env h p tr =
     (if component p \<and> controller p
      then [Call h QueryComponentCP, Call h QueryControllerCP] @
           (if creates env tr h QueryComponentCP \<and>
               creates env (tr @ [Call h QueryComponentCP]) h QueryControllerCP
            then [Call h ComponentDisconnect, Call h ControllerDisconnect] else [])
      else []) @
     (if controller p then [Call h ControllerTerminate] else []) @
     (if component p then [Call h ComponentTerminate] else []) @
     (case module p of None \<Rightarrow> [] | Some path \<Rightarrow> [ModuleRelease path])"

text \<open>The world one unload of the demo instance leaves.\<close>

definition unloaded_world :: world where
  "unloaded_world =
     \<lparr>gHostContext = True, heap = (\<lambda>_. None), allocated = 1,
      trace = demo_trace @
        [Call 1 QueryComponentCP, Call 1 QueryControllerCP,
         Call 1 ComponentDisconnect, Call 1 ControllerDisconnect,
         Call 1 ControllerTerminate, Call 1 ComponentTerminate, ModuleRelease ''demo.vst3''],
      err_log = []\<rparr>"

definition reject_activate :: "abi_call \<Rightarrow> tresult" where
  "reject_activate c = (case c of ComponentSetActive _ \<Rightarrow> 1 | _ \<Rightarrow> kResultOk)"

text \<open>
  The instance and the world that loading \<^verbatim>\<open>demo.vst3\<close> leaves when the component names
  no controller class.
\<close>

definition bare_plugin :: VST3Plugin where
  "bare_plugin =
     (new_plugin ''demo.vst3'')
       \<lparr>component := True, processor := True, num_inputs := 2, num_outputs := 2\<rparr>"

definition bare_world :: world where
  "bare_world =
     \<lparr>gHostContext = True, heap = (\<lambda>_. None)(1 \<mapsto> bare_plugin), allocated = 1,
      trace =
        [ModuleCreate ''demo.vst3'',
         Call 1 (CreateComponent ''B''), Call 1 ComponentInitialize, Call 1 QueryAudioProcessor,
         Call 1 GetControllerClassId,
         Call 1 (GetBusCount kInput), Call 1 (GetBusCount kOutput),
         Call 1 (GetBusInfo kInput), Call 1 (GetBusInfo kOutput)],
      err_log = []\<rparr>"

text \<open>The bus activations \<^verbatim>\<open>vst3_setup_processing\<close> makes: one for each side with channels.\<close>

definition bus_activations :: "ptr \<Rightarrow> VST3Plugin \<Rightarrow> trace_event list" where
  "bus_activations h p =
     (if num_inputs p > 0 then [Call h (ActivateBus kInput True)] else []) @
     (if num_outputs p > 0 then [Call h (ActivateBus kOutput True)] else [])"

text \<open>
  \<open>n\<close> note-ons sent to the demo instance one after the other with no block in between,
  and the world they leave while there is room.
\<close>

fun send_note_ons :: "nat \<Rightarrow> world \<Rightarrow> fault + (int \<times> world)" where
  "send_note_ons 0 w = Inr (0, w)"
| "send_note_ons (Suc n) w = and_then (send_note_ons n w) (vst3_send_note_on 1 0 60 127 0)"

definition filled_world :: "nat \<Rightarrow> world" where
  "filled_world n = store 1 (demo_plugin\<lparr>inputEvents := replicate n note_on_60\<rparr>) demo_world"

section \<open>Shared lemmas\<close>

lemmas world_ops = record_call_def report_def store_def delete_def release_module_def

lemmas stub_defs = stub_env_def stub_classes_def class_B_def class_A_def class_C_def
  stub_count_def kVstAudioEffectClass_def kResultOk_def nullptr_def

text \<open>Loading \<^verbatim>\<open>demo.vst3\<close> into the initial world gives handle 1 and the demo world.\<close>

lemma demo_load:
  "vst3_load_plugin (stub_env accept_all) (Some ''demo.vst3'') world0 = (1, demo_world)"
  by (simp add: vst3_load_plugin_def instantiate_def load_controller_def query_bus_def
      world_ops stub_defs accept_all_def world0_def demo_world_def demo_trace_def
      demo_plugin_def Let_def)

lemma demo_heap: "heap demo_world 1 = Some demo_plugin"
  by (simp add: demo_world_def)

lemma demo_unconfigured:
  "configured (stub_env status) 1 demo_trace = False"
  "component_active (stub_env status) 1 demo_trace = False"
  by (simp_all add: configured_def component_active_def demo_trace_def accepted_setup_def
      accepted_set_active_def)

section \<open>Conversions to the SDK's field types\<close>

lemma to_int8_in_range: "- 128 \<le> v \<Longrightarrow> v \<le> 127 \<Longrightarrow> to_int8 v = v"
  by (simp add: to_int8_def)

lemma to_uint8_in_range: "0 \<le> v \<Longrightarrow> v \<le> 255 \<Longrightarrow> to_uint8 v = v"
  by (simp add: to_uint8_def)

lemma to_int16_in_range: "- 32768 \<le> v \<Longrightarrow> v \<le> 32767 \<Longrightarrow> to_int16 v = v"
  by (simp add: to_int16_def)

lemma binade_numeral:
  "binade (numeral k) y =
     (if 2 \<le> y then binade (pred_numeral k) (y / 2) + 1
      else if y < 1 then binade (pred_numeral k) (2 * y) - 1
      else 0)"
  by (simp add: numeral_eq_Suc)

lemmas float32_eval = normalized_velocity_def to_float32_def binade_numeral
  round_half_even_def pow2_def Let_def

text \<open>The full velocity is 1, no velocity is 0, and velocity 64 is not the real 64/127.\<close>

lemma normalized_velocity_values:
  "normalized_velocity 127 = 1"
  "normalized_velocity 0 = 0"
  "normalized_velocity 64 = 8454660 / 2 ^ 24"
  by (simp_all add: float32_eval)

section \<open>Event submission\<close>

text \<open>
  Adding events to a struct fills the room the queue has left, in order, and drops the
  rest; submitting to a live handle does this to the handle's struct, returns 0 and
  touches nothing else.
\<close>

lemma fold_addEvent:
  "fold addEvent es p =
     p\<lparr>inputEvents := inputEvents p @ take (maxSize - length (inputEvents p)) es\<rparr>"
proof (induction es arbitrary: p)
  case Nil
  show ?case by simp
next
  case (Cons e es)
  show ?case
  proof (cases "length (inputEvents p) < maxSize")
    case True
    then obtain k where k: "maxSize - length (inputEvents p) = Suc k"
      by (cases "maxSize - length (inputEvents p)") simp_all
    then have k': "maxSize - Suc (length (inputEvents p)) = k" by simp
    have step: "addEvent e p = p\<lparr>inputEvents := inputEvents p @ [e]\<rparr>"
      using True by (simp add: addEvent_def)
    have "fold addEvent (e # es) p = fold addEvent es (p\<lparr>inputEvents := inputEvents p @ [e]\<rparr>)"
      by (simp add: step)
    also have "\<dots> = p\<lparr>inputEvents := inputEvents p @ e # take k es\<rparr>"
      by (simp add: Cons.IH k')
    finally show ?thesis by (simp add: k)
  next
    case False
    have step: "addEvent e p = p"
      using False by (simp add: addEvent_def)
    have "fold addEvent (e # es) p = fold addEvent es p"
      by (simp add: step)
    also have "\<dots> = p" using False by (simp add: Cons.IH)
    finally show ?thesis using False by simp
  qed
qed

lemma submit_live:
  assumes "plugin \<noteq> nullptr" and "heap w plugin = Some p"
  shows "submit plugin es w =
           Inr (0, store plugin
                  (p\<lparr>inputEvents := inputEvents p @ take (maxSize - length (inputEvents p)) es\<rparr>)
                  w)"
  using assms by (simp add: submit_def fold_addEvent)

lemma submit_observed:
  assumes "plugin \<noteq> nullptr" and "heap w plugin = Some p"
  shows "returned (submit plugin es w) = Some 0"
    and "Option.bind (after (submit plugin es w)) (pending plugin) =
           Some (inputEvents p @ take (50 - length (inputEvents p)) es)"
    and "map_option trace (after (submit plugin es w)) = Some (trace w)"
  by (simp_all add: submit_live [OF assms] returned_def after_def pending_def store_def
      maxSize_def)


text \<open>
  Sending the note-on of the demo runs \<open>n\<close> times fills the queue of the loaded, never set
  up instance with \<open>n\<close> events, up to its 50 slots.
\<close>

lemma demo_note_on:
  "live_event 0 (NoteOnEvent (to_int16 0) (to_int16 60) 0 (normalized_velocity 127) 0 (- 1)) =
     note_on_60"
  by (simp add: live_event_def note_on_60_def kIsLive_def to_int16_def
      normalized_velocity_values)

lemma filled_heap:
  "heap (filled_world n) 1 = Some (demo_plugin\<lparr>inputEvents := replicate n note_on_60\<rparr>)"
  by (simp add: filled_world_def store_def)

lemma send_note_on_filled:
  "vst3_send_note_on 1 0 60 127 0 (filled_world n) =
     Inr (0, filled_world (if n < 50 then Suc n else n))"
proof -
  have live: "(1::nat) \<noteq> nullptr" by (simp add: nullptr_def)
  have again: "store 1 q (filled_world n) = store 1 q demo_world" for q
    by (simp add: filled_world_def store_def)
  show ?thesis
    unfolding vst3_send_note_on_def demo_note_on submit_live [OF live filled_heap] again
    by (simp add: filled_world_def maxSize_def replicate_append_same)
qed

lemma send_note_ons_fill:
  "n \<le> 50 \<Longrightarrow> send_note_ons n demo_world = Inr (0, filled_world n)"
proof (induction n)
  case 0
  have "store 1 (demo_plugin\<lparr>inputEvents := []\<rparr>) demo_world = demo_world"
    by (simp add: store_def demo_world_def demo_plugin_def new_plugin_def)
  then show ?case by (simp add: filled_world_def)
next
  case (Suc n)
  then have "send_note_ons n demo_world = Inr (0, filled_world n)" and "n < 50" by simp_all
  then show ?case using send_note_on_filled [of n] by (simp add: and_then_def)
qed

text \<open>
  Claim C6, as the code has it. On a non-null handle of a live instance
  \<^verbatim>\<open>vst3_send_program_change\<close> returns 0 and offers two legacy CC events to the input
  event queue, both at the given offset: controller 0 with value 0, then controller 32
  with the program as its value, channel and program converted to the \<^verbatim>\<open>int8\<close> fields.
  The queue takes as many of the two as it has room for among its 50 slots. So when at
  most 48 events are pending and channel and program lie in the \<^verbatim>\<open>int8\<close> range, which
  holds MIDI's channels and programs, exactly the two events of the claim are appended,
  with the program number itself.
\<close>

theorem program_change_within_range:
  assumes "plugin \<noteq> nullptr" and "heap w plugin = Some p"
  shows "returned (vst3_send_program_change plugin channel program sample_offset w) = Some 0 \<and>
         Option.bind (after (vst3_send_program_change plugin channel program sample_offset w))
             (pending plugin) =
           Some (inputEvents p @ take (50 - length (inputEvents p))
             [\<lparr>busIndex = 0, sampleOffset = sample_offset, ppqPosition = 0, flags = kIsLive,
               payload = LegacyMIDICCOutEvent 0 (to_int8 channel) 0 0\<rparr>,
              \<lparr>busIndex = 0, sampleOffset = sample_offset, ppqPosition = 0, flags = kIsLive,
               payload = LegacyMIDICCOutEvent 32 (to_int8 channel) (to_int8 program) 0\<rparr>]) \<and>
         (length (inputEvents p) \<le> 48 \<and> - 128 \<le> channel \<and> channel \<le> 127 \<and>
          - 128 \<le> program \<and> program \<le> 127 \<longrightarrow>
          Option.bind (after (vst3_send_program_change plugin channel program sample_offset w))
             (pending plugin) =
           Some (inputEvents p @
             [\<lparr>busIndex = 0, sampleOffset = sample_offset, ppqPosition = 0, flags = kIsLive,
               payload = LegacyMIDICCOutEvent 0 channel 0 0\<rparr>,
              \<lparr>busIndex = 0, sampleOffset = sample_offset, ppqPosition = 0, flags = kIsLive,
               payload = LegacyMIDICCOutEvent 32 channel program 0\<rparr>]))"
proof -
  let ?r = "vst3_send_program_change plugin channel program sample_offset w"
  have ret: "returned ?r = Some 0"
    unfolding vst3_send_program_change_def by (rule submit_observed(1) [OF assms])
  have queue: "Option.bind (after ?r) (pending plugin) =
           Some (inputEvents p @ take (50 - length (inputEvents p))
             [\<lparr>busIndex = 0, sampleOffset = sample_offset, ppqPosition = 0, flags = kIsLive,
               payload = LegacyMIDICCOutEvent 0 (to_int8 channel) 0 0\<rparr>,
              \<lparr>busIndex = 0, sampleOffset = sample_offset, ppqPosition = 0, flags = kIsLive,
               payload = LegacyMIDICCOutEvent 32 (to_int8 channel) (to_int8 program) 0\<rparr>])"
    unfolding vst3_send_program_change_def submit_observed(2) [OF assms]
    by (simp add: live_event_def)
  have room: "take (50 - n) [a, b] = [a, b]" if "n \<le> 48" for n :: nat and a b :: Event
  proof -
    from that have "50 - n = Suc (Suc (48 - n))" by simp
    then show ?thesis by simp
  qed
  show ?thesis
    using ret queue by (simp add: room to_int8_in_range)
qed


theorem program_change_within_range_witness:
  "returned (vst3_send_program_change 1 0 5 10 demo_world) = Some 0 \<and>
   Option.bind (after (vst3_send_program_change 1 0 5 10 demo_world)) (pending 1) =
     Some [\<lparr>busIndex = 0, sampleOffset = 10, ppqPosition = 0, flags = 1,
            payload = LegacyMIDICCOutEvent 0 0 0 0\<rparr>,
           \<lparr>busIndex = 0, sampleOffset = 10, ppqPosition = 0, flags = 1,
            payload = LegacyMIDICCOutEvent 32 0 5 0\<rparr>]"
proof -
  have live: "(1::nat) \<noteq> nullptr" by (simp add: nullptr_def)
  have empty: "inputEvents demo_plugin = []" by (simp add: demo_plugin_def new_plugin_def)
  note inst = program_change_within_range [OF live demo_heap, of 0 5 10]
  have ret: "returned (vst3_send_program_change 1 0 5 10 demo_world) = Some 0"
    using inst by blast
  have "Option.bind (after (vst3_send_program_change 1 0 5 10 demo_world)) (pending 1) =
     Some (inputEvents demo_plugin @
            [\<lparr>busIndex = 0, sampleOffset = 10, ppqPosition = 0, flags = kIsLive,
               payload = LegacyMIDICCOutEvent 0 0 0 0\<rparr>,
             \<lparr>busIndex = 0, sampleOffset = 10, ppqPosition = 0, flags = kIsLive,
               payload = LegacyMIDICCOutEvent 32 0 5 0\<rparr>])"
    using inst by (simp add: empty to_int8_def)
  then have queue: "Option.bind (after (vst3_send_program_change 1 0 5 10 demo_world)) (pending 1) =
     Some [\<lparr>busIndex = 0, sampleOffset = 10, ppqPosition = 0, flags = 1,
            payload = LegacyMIDICCOutEvent 0 0 0 0\<rparr>,
           \<lparr>busIndex = 0, sampleOffset = 10, ppqPosition = 0, flags = 1,
            payload = LegacyMIDICCOutEvent 32 0 5 0\<rparr>]"
    by (simp add: empty kIsLive_def)
  show ?thesis using ret queue by blast
qed

text \<open>
  The claim as stated fails twice. Program 200 on the demo instance is queued as -56, the
  value the \<^verbatim>\<open>int8\<close> field holds. And after 49 note-ons with no block in between, a
  program change appends the controller 0 event only, and still returns 0.
\<close>

theorem program_change_counterexample:
  "Option.bind (after (vst3_send_program_change 1 0 200 10 demo_world)) (pending 1) =
     Some [\<lparr>busIndex = 0, sampleOffset = 10, ppqPosition = 0, flags = 1,
            payload = LegacyMIDICCOutEvent 0 0 0 0\<rparr>,
           \<lparr>busIndex = 0, sampleOffset = 10, ppqPosition = 0, flags = 1,
            payload = LegacyMIDICCOutEvent 32 0 (- 56) 0\<rparr>] \<and>
   send_note_ons 49 demo_world = Inr (0, filled_world 49) \<and>
   returned (vst3_send_program_change 1 0 5 10 (filled_world 49)) = Some 0 \<and>
   Option.bind (after (vst3_send_program_change 1 0 5 10 (filled_world 49))) (pending 1) =
     Some (replicate 49 note_on_60 @
       [\<lparr>busIndex = 0, sampleOffset = 10, ppqPosition = 0, flags = 1,
          payload = LegacyMIDICCOutEvent 0 0 0 0\<rparr>])"
proof -
  have live: "(1::nat) \<noteq> nullptr" by (simp add: nullptr_def)
  have empty: "inputEvents demo_plugin = []" by (simp add: demo_plugin_def new_plugin_def)
  have wrapped: "Option.bind (after (vst3_send_program_change 1 0 200 10 demo_world)) (pending 1) =
     Some [\<lparr>busIndex = 0, sampleOffset = 10, ppqPosition = 0, flags = 1,
            payload = LegacyMIDICCOutEvent 0 0 0 0\<rparr>,
           \<lparr>busIndex = 0, sampleOffset = 10, ppqPosition = 0, flags = 1,
            payload = LegacyMIDICCOutEvent 32 0 (- 56) 0\<rparr>]"
    unfolding vst3_send_program_change_def submit_observed(2) [OF live demo_heap]
    by (simp add: empty live_event_def kIsLive_def to_int8_def)
  have fill: "send_note_ons 49 demo_world = Inr (0, filled_world 49)"
    by (rule send_note_ons_fill) simp
  have ret: "returned (vst3_send_program_change 1 0 5 10 (filled_world 49)) = Some 0"
    unfolding vst3_send_program_change_def by (rule submit_observed(1) [OF live filled_heap])
  have dropped: "Option.bind (after (vst3_send_program_change 1 0 5 10 (filled_world 49)))
      (pending 1) =
     Some (replicate 49 note_on_60 @
       [\<lparr>busIndex = 0, sampleOffset = 10, ppqPosition = 0, flags = 1,
          payload = LegacyMIDICCOutEvent 0 0 0 0\<rparr>])"
    unfolding vst3_send_program_change_def submit_observed(2) [OF live filled_heap]
    by (simp add: live_event_def kIsLive_def to_int8_def)
  show ?thesis using wrapped fill ret dropped by blast
qed

text \<open>
  Claim C9, as the code has it. On a non-null handle of a live instance, whatever its
  fields and whatever the history (set up or not, active or not), each of
  \<^verbatim>\<open>vst3_send_note_on\<close>, \<^verbatim>\<open>vst3_send_note_off\<close>, \<^verbatim>\<open>vst3_send_midi_cc\<close> and
  \<^verbatim>\<open>vst3_send_program_change\<close> returns 0 and makes no call into the plug-in. Its event
  or events, with the arguments converted to the SDK's field types and the velocity
  divided by 127 in \<^verbatim>\<open>float\<close>, go to the end of the input event queue as far as the
  queue's 50 slots have room; what does not fit is dropped.
\<close>

theorem event_submission_bounded_queue:
  assumes "plugin \<noteq> nullptr" and "heap w plugin = Some p"
  shows
    "returned (vst3_send_note_on plugin channel note velocity sample_offset w) = Some 0 \<and>
     Option.bind (after (vst3_send_note_on plugin channel note velocity sample_offset w))
         (pending plugin) =
       Some (inputEvents p @ take (50 - length (inputEvents p))
         [\<lparr>busIndex = 0, sampleOffset = sample_offset, ppqPosition = 0, flags = kIsLive,
           payload = NoteOnEvent (to_int16 channel) (to_int16 note) 0
                       (normalized_velocity velocity) 0 (- 1)\<rparr>]) \<and>
     map_option trace (after (vst3_send_note_on plugin channel note velocity sample_offset w)) =
       Some (trace w) \<and>
     returned (vst3_send_note_off plugin channel note sample_offset w) = Some 0 \<and>
     Option.bind (after (vst3_send_note_off plugin channel note sample_offset w))
         (pending plugin) =
       Some (inputEvents p @ take (50 - length (inputEvents p))
         [\<lparr>busIndex = 0, sampleOffset = sample_offset, ppqPosition = 0, flags = kIsLive,
           payload = NoteOffEvent (to_int16 channel) (to_int16 note) 0 (- 1) 0\<rparr>]) \<and>
     map_option trace (after (vst3_send_note_off plugin channel note sample_offset w)) =
       Some (trace w) \<and>
     returned (vst3_send_midi_cc plugin channel cc v sample_offset w) = Some 0 \<and>
     Option.bind (after (vst3_send_midi_cc plugin channel cc v sample_offset w))
         (pending plugin) =
       Some (inputEvents p @ take (50 - length (inputEvents p))
         [\<lparr>busIndex = 0, sampleOffset = sample_offset, ppqPosition = 0, flags = kIsLive,
           payload = LegacyMIDICCOutEvent (to_uint8 cc) (to_int8 channel) (to_int8 v) 0\<rparr>]) \<and>
     map_option trace (after (vst3_send_midi_cc plugin channel cc v sample_offset w)) =
       Some (trace w) \<and>
     returned (vst3_send_program_change plugin channel program sample_offset w) = Some 0 \<and>
     Option.bind (after (vst3_send_program_change plugin channel program sample_offset w))
         (pending plugin) =
       Some (inputEvents p @ take (50 - length (inputEvents p))
         [\<lparr>busIndex = 0, sampleOffset = sample_offset, ppqPosition = 0, flags = kIsLive,
           payload = LegacyMIDICCOutEvent 0 (to_int8 channel) 0 0\<rparr>,
          \<lparr>busIndex = 0, sampleOffset = sample_offset, ppqPosition = 0, flags = kIsLive,
           payload = LegacyMIDICCOutEvent 32 (to_int8 channel) (to_int8 program) 0\<rparr>]) \<and>
     map_option trace (after (vst3_send_program_change plugin channel program sample_offset w)) =
       Some (trace w)"
  unfolding vst3_send_note_on_def vst3_send_note_off_def vst3_send_midi_cc_def
    vst3_send_program_change_def submit_observed [OF assms]
  by (simp add: live_event_def)


theorem event_submission_bounded_queue_witness:
  "configured (stub_env accept_all) 1 (trace demo_world) = False \<and>
   component_active (stub_env accept_all) 1 (trace demo_world) = False \<and>
   returned (vst3_send_note_on 1 0 60 127 3 demo_world) = Some 0 \<and>
   Option.bind (after (vst3_send_note_on 1 0 60 127 3 demo_world)) (pending 1) =
     Some [\<lparr>busIndex = 0, sampleOffset = 3, ppqPosition = 0, flags = 1,
            payload = NoteOnEvent 0 60 0 1 0 (- 1)\<rparr>] \<and>
   returned (vst3_send_note_off 1 0 60 3 demo_world) = Some 0 \<and>
   Option.bind (after (vst3_send_note_off 1 0 60 3 demo_world)) (pending 1) =
     Some [\<lparr>busIndex = 0, sampleOffset = 3, ppqPosition = 0, flags = 1,
            payload = NoteOffEvent 0 60 0 (- 1) 0\<rparr>] \<and>
   returned (vst3_send_midi_cc 1 0 7 100 3 demo_world) = Some 0 \<and>
   Option.bind (after (vst3_send_midi_cc 1 0 7 100 3 demo_world)) (pending 1) =
     Some [\<lparr>busIndex = 0, sampleOffset = 3, ppqPosition = 0, flags = 1,
            payload = LegacyMIDICCOutEvent 7 0 100 0\<rparr>] \<and>
   returned (vst3_send_program_change 1 0 5 3 demo_world) = Some 0 \<and>
   Option.bind (after (vst3_send_program_change 1 0 5 3 demo_world)) (pending 1) =
     Some [\<lparr>busIndex = 0, sampleOffset = 3, ppqPosition = 0, flags = 1,
            payload = LegacyMIDICCOutEvent 0 0 0 0\<rparr>,
           \<lparr>busIndex = 0, sampleOffset = 3, ppqPosition = 0, flags = 1,
            payload = LegacyMIDICCOutEvent 32 0 5 0\<rparr>] \<and>
   map_option trace (after (vst3_send_note_on 1 0 60 127 3 demo_world)) = Some demo_trace"
proof -
  have live: "(1::nat) \<noteq> nullptr" by (simp add: nullptr_def)
  have empty: "inputEvents demo_plugin = []" by (simp add: demo_plugin_def new_plugin_def)
  have tr: "trace demo_world = demo_trace" by (simp add: demo_world_def)
  have conv: "to_int16 0 = 0" "to_int16 60 = 60" "to_uint8 7 = 7" "to_int8 0 = 0"
    "to_int8 100 = 100" "to_int8 5 = 5"
    by (simp_all add: to_int16_def to_uint8_def to_int8_def)
  show ?thesis
    using event_submission_bounded_queue [OF live demo_heap, of 0 60 127 3 7 100 5]
      demo_unconfigured [of accept_all]
    by (simp add: empty tr conv normalized_velocity_values kIsLive_def)
qed

text \<open>
  The claim as stated fails: 50 note-ons sent to the loaded instance, which is not set up
  and not active, fill its queue; the next note-on returns 0 and the queue is as before.
\<close>

theorem event_submission_counterexample:
  "send_note_ons 50 demo_world = Inr (0, filled_world 50) \<and>
   pending 1 (filled_world 50) = Some (replicate 50 note_on_60) \<and>
   returned (vst3_send_note_on 1 0 60 127 0 (filled_world 50)) = Some 0 \<and>
   Option.bind (after (vst3_send_note_on 1 0 60 127 0 (filled_world 50))) (pending 1) =
     Some (replicate 50 note_on_60)"
proof -
  have fill: "send_note_ons 50 demo_world = Inr (0, filled_world 50)"
    by (rule send_note_ons_fill) simp
  have before: "pending 1 (filled_world 50) = Some (replicate 50 note_on_60)"
    using filled_heap [of 50] by (simp add: pending_def)
  have full: "vst3_send_note_on 1 0 60 127 0 (filled_world 50) = Inr (0, filled_world 50)"
    using send_note_on_filled [of 50] by simp
  have ret: "returned (vst3_send_note_on 1 0 60 127 0 (filled_world 50)) = Some 0"
    unfolding full by (simp add: returned_def)
  have unchanged: "Option.bind (after (vst3_send_note_on 1 0 60 127 0 (filled_world 50)))
      (pending 1) = Some (replicate 50 note_on_60)"
    unfolding full using before by (simp add: after_def)
  show ?thesis using fill before ret unchanged by blast
qed

section \<open>The block call\<close>

lemma demo_process_call:
  "process_call (bind_block demo_plugin no_buffers no_buffers 64 2 2) = Process 64 0 0 []"
  by (simp add: process_call_def bind_block_def bind_inputs_def bind_outputs_def
      demo_plugin_def new_plugin_def empty_process_data_def)

text \<open>
  Claim C1, as the code has it. \<^verbatim>\<open>vst3_process\<close> returns -1 without calling the plug-in
  only for a null handle or a null processor pointer. On every other live handle, set up
  or not and active or not, it calls the plug-in's \<^verbatim>\<open>process\<close> exactly once, as the last
  entry of the trace, and returns 0 when the plug-in answers \<^verbatim>\<open>kResultOk\<close> and -1
  otherwise.
\<close>

theorem process_guard_is_pointer_check:
  assumes "plugin \<noteq> nullptr" and "heap w plugin = Some p"
  shows "vst3_process env nullptr inputs outputs n n_in n_out w = Inr (- 1, w) \<and>
         (if processor p
          then returned (vst3_process env plugin inputs outputs n n_in n_out w) =
                 Some (if tresult_of env (trace w) plugin
                            (process_call (bind_block p inputs outputs n n_in n_out)) = kResultOk
                       then 0 else - 1) \<and>
               map_option trace (after (vst3_process env plugin inputs outputs n n_in n_out w)) =
                 Some (trace w @
                   [Call plugin (process_call (bind_block p inputs outputs n n_in n_out))])
          else vst3_process env plugin inputs outputs n n_in n_out w = Inr (- 1, w))"
  using assms
  by (simp add: vst3_process_def returned_def after_def record_call_def store_def Let_def)

theorem process_guard_is_pointer_check_witness:
  "vst3_process (stub_env reject_process) nullptr no_buffers no_buffers 64 2 2 demo_world =
     Inr (- 1, demo_world) \<and>
   returned (vst3_process (stub_env reject_process) 1 no_buffers no_buffers 64 2 2 demo_world) =
     Some (- 1) \<and>
   map_option trace
       (after (vst3_process (stub_env reject_process) 1 no_buffers no_buffers 64 2 2 demo_world)) =
     Some (demo_trace @ [Call 1 (Process 64 0 0 [])])"
proof -
  have live: "(1::nat) \<noteq> nullptr" by (simp add: nullptr_def)
  have proc: "processor demo_plugin" by (simp add: demo_plugin_def)
  have tr: "trace demo_world = demo_trace" by (simp add: demo_world_def)
  have rej: "tresult_of (stub_env reject_process) t h (Process a b c d) \<noteq> kResultOk" for t h a b c d
    by (simp add: stub_env_def reject_process_def kResultOk_def)
  show ?thesis
    using process_guard_is_pointer_check [OF live demo_heap,
        of "stub_env reject_process" no_buffers no_buffers 64 2 2]
    by (simp add: proc tr demo_process_call rej)
qed

text \<open>
  The claim as stated fails: the instance that loading \<^verbatim>\<open>demo.vst3\<close> returns has never
  been set up or activated, and \<^verbatim>\<open>vst3_process\<close> on it calls the plug-in and returns 0.
\<close>

theorem process_before_setup_counterexample:
  "vst3_load_plugin (stub_env accept_all) (Some ''demo.vst3'') world0 = (1, demo_world) \<and>
   configured (stub_env accept_all) 1 (trace demo_world) = False \<and>
   component_active (stub_env accept_all) 1 (trace demo_world) = False \<and>
   returned (vst3_process (stub_env accept_all) 1 no_buffers no_buffers 64 2 2 demo_world) =
     Some 0 \<and>
   map_option trace
       (after (vst3_process (stub_env accept_all) 1 no_buffers no_buffers 64 2 2 demo_world)) =
     Some (demo_trace @ [Call 1 (Process 64 0 0 [])])"
proof -
  have tr: "trace demo_world = demo_trace" by (simp add: demo_world_def)
  have proc: "processor demo_plugin" by (simp add: demo_plugin_def)
  have acc: "tresult_of (stub_env accept_all) t h c = kResultOk" for t h c
    by (simp add: stub_env_def accept_all_def)
  have run: "returned (vst3_process (stub_env accept_all) 1 no_buffers no_buffers 64 2 2 demo_world) =
     Some 0 \<and>
   map_option trace
       (after (vst3_process (stub_env accept_all) 1 no_buffers no_buffers 64 2 2 demo_world)) =
     Some (demo_trace @ [Call 1 (Process 64 0 0 [])])"
    using demo_heap proc
    by (simp add: vst3_process_def returned_def after_def record_call_def store_def Let_def
        nullptr_def demo_process_call acc tr)
  show ?thesis
    using demo_load demo_unconfigured [of accept_all] run by (simp add: tr)
qed

text \<open>The demo instance is set up, activated and given a note-on by the host's own calls.\<close>

lemma configured_reach:
  assumes "status (SetupProcessing 44100 512) = kResultOk"
  shows "vst3_setup_processing (stub_env status) 1 44100 512 demo_world = Inr (0, configured_world)"
  using assms
  by (simp add: vst3_setup_processing_def activate_buses_def prepare_def world_ops
      stub_env_def stub_count_def nullptr_def demo_world_def demo_plugin_def new_plugin_def
      configured_world_def configured_plugin_def setup_calls_def Let_def)

lemma active_reach:
  assumes "status (ComponentSetActive True) = kResultOk" and "status (SetProcessing True) = kResultOk"
  shows "vst3_set_active (stub_env status) 1 True configured_world = Inr (0, active_world)"
  using assms
  by (simp add: vst3_set_active_def world_ops stub_env_def nullptr_def configured_world_def
      configured_plugin_def demo_plugin_def active_world_def active_trace_def Let_def)

lemma queued_reach:
  "vst3_send_note_on 1 0 60 127 0 active_world = Inr (0, queued_world)"
  by (simp add: vst3_send_note_on_def submit_def addEvent_def maxSize_def live_event_def
      kIsLive_def to_int16_def normalized_velocity_values nullptr_def active_world_def
      configured_world_def queued_world_def note_on_60_def configured_plugin_def
      demo_plugin_def new_plugin_def)


text \<open>
  For a live instance with a processor: when the plug-in rejects the block the pending
  events stay queued, and when it accepts the block the queue is emptied.
\<close>

lemma process_rejected_keeps_events:
  assumes "plugin \<noteq> nullptr" and "heap w plugin = Some p" and "processor p"
    and "tresult_of env (trace w) plugin
           (process_call (bind_block p inputs outputs n n_in n_out)) \<noteq> kResultOk"
  shows "Option.bind (after (vst3_process env plugin inputs outputs n n_in n_out w))
           (pending plugin) = Some (inputEvents p)"
  using assms
  by (simp add: vst3_process_def after_def pending_def record_call_def store_def Let_def
      bind_block_def)

lemma process_accepted_clears_events:
  assumes "plugin \<noteq> nullptr" and "heap w plugin = Some p" and "processor p"
    and "tresult_of env (trace w) plugin
           (process_call (bind_block p inputs outputs n n_in n_out)) = kResultOk"
  shows "Option.bind (after (vst3_process env plugin inputs outputs n n_in n_out w))
           (pending plugin) = Some []"
  using assms
  by (simp add: vst3_process_def after_def pending_def record_call_def store_def Let_def)

text \<open>
  Claim C2 at a failing input. The demo instance is set up and active and holds one
  note-on; the plug-in answers 1 to \<^verbatim>\<open>process\<close>. \<^verbatim>\<open>vst3_process\<close> returns -1 and the
  note-on is still in the input event queue: the early return comes before the
  \<^verbatim>\<open>clear\<close>.
\<close>

theorem failed_block_keeps_events:
  "vst3_setup_processing (stub_env reject_process) 1 44100 512 demo_world =
     Inr (0, configured_world) \<and>
   vst3_set_active (stub_env reject_process) 1 True configured_world = Inr (0, active_world) \<and>
   vst3_send_note_on 1 0 60 127 0 active_world = Inr (0, queued_world) \<and>
   returned (vst3_process (stub_env reject_process) 1 no_buffers no_buffers 64 2 2 queued_world) =
     Some (- 1) \<and>
   Option.bind
       (after (vst3_process (stub_env reject_process) 1 no_buffers no_buffers 64 2 2 queued_world))
       (pending 1) = Some [note_on_60]"
proof -
  have ok: "reject_process (SetupProcessing 44100 512) = kResultOk"
    "reject_process (ComponentSetActive True) = kResultOk"
    "reject_process (SetProcessing True) = kResultOk"
    by (simp_all add: reject_process_def)
  have rej: "tresult_of (stub_env reject_process) t h (process_call q) \<noteq> kResultOk" for t h q
    by (simp add: stub_env_def reject_process_def kResultOk_def process_call_def)
  have live: "(1::nat) \<noteq> nullptr" by (simp add: nullptr_def)
  have held: "heap queued_world 1 = Some (configured_plugin\<lparr>inputEvents := [note_on_60]\<rparr>)"
    by (simp add: queued_world_def store_def)
  have proc: "processor (configured_plugin\<lparr>inputEvents := [note_on_60]\<rparr>)"
    by (simp add: configured_plugin_def demo_plugin_def)
  have ret: "returned (vst3_process (stub_env reject_process) 1 no_buffers no_buffers 64 2 2
               queued_world) = Some (- 1)"
    using held proc
    by (simp add: vst3_process_def returned_def Let_def nullptr_def rej)
  have kept: "Option.bind
       (after (vst3_process (stub_env reject_process) 1 no_buffers no_buffers 64 2 2 queued_world))
       (pending 1) = Some [note_on_60]"
    using process_rejected_keeps_events [OF live held proc rej] by simp
  show ?thesis
    using configured_reach [of reject_process] active_reach [of reject_process] ok queued_reach ret kept
    by simp
qed

section \<open>Unloading\<close>

lemma unload_live:
  assumes "plugin \<noteq> nullptr" and "heap w plugin = Some p"
  shows "vst3_unload_plugin env plugin w =
           Inr (w\<lparr>heap := (heap w)(plugin := None),
                  trace := trace w @ unload_calls env plugin p (trace w)\<rparr>)"
  using assms
  by (cases "module p")
     (simp_all add: vst3_unload_plugin_def disconnect_def terminate_interfaces_def
        drop_module_def unload_calls_def world_ops Let_def)

text \<open>
  Claim C3, as the code has it. Unloading the null handle does nothing, any number of
  times. Unloading a live handle, whichever of its pointers are set, makes the calls of
  \<open>unload_calls\<close> and nothing else: each interface that is set is terminated once and the
  module is released once, and the struct is freed. The handle is dangling from then on:
  a second unload of it reads freed memory, which is a fault.
\<close>

theorem unload_releases_once:
  assumes "plugin \<noteq> nullptr" and "heap w plugin = Some p"
  shows "unload_twice env nullptr w = Inr w \<and>
         vst3_unload_plugin env plugin w =
           Inr (w\<lparr>heap := (heap w)(plugin := None),
                  trace := trace w @ unload_calls env plugin p (trace w)\<rparr>) \<and>
         count_list (unload_calls env plugin p (trace w)) (Call plugin ControllerTerminate) =
           (if controller p then 1 else 0) \<and>
         count_list (unload_calls env plugin p (trace w)) (Call plugin ComponentTerminate) =
           (if component p then 1 else 0) \<and>
         length (filter (\<lambda>e. e \<in> range ModuleRelease) (unload_calls env plugin p (trace w))) =
           (if module p = None then 0 else 1) \<and>
         unload_twice env plugin w = Inl InvalidHandle"
proof -
  have null: "unload_twice env nullptr w = Inr w"
    by (simp add: unload_twice_def vst3_unload_plugin_def)
  have again: "vst3_unload_plugin env plugin w' = Inl InvalidHandle"
    if "heap w' plugin = None" for w'
    using assms(1) that by (simp add: vst3_unload_plugin_def)
  have twice: "unload_twice env plugin w = Inl InvalidHandle"
    unfolding unload_twice_def unload_live [OF assms] by (simp add: again)
  have counts:
    "count_list (unload_calls env plugin p (trace w)) (Call plugin ControllerTerminate) =
       (if controller p then 1 else 0)"
    "count_list (unload_calls env plugin p (trace w)) (Call plugin ComponentTerminate) =
       (if component p then 1 else 0)"
    "length (filter (\<lambda>e. e \<in> range ModuleRelease) (unload_calls env plugin p (trace w))) =
       (if module p = None then 0 else 1)"
    by (cases "module p"; simp add: unload_calls_def image_iff)+
  show ?thesis using null twice counts unload_live [OF assms] by simp
qed


theorem unload_releases_once_witness:
  "unload_twice (stub_env accept_all) nullptr active_world = Inr active_world \<and>
   map_sum id trace (vst3_unload_plugin (stub_env accept_all) 1 active_world) =
     Inr (active_trace @
       [Call 1 QueryComponentCP, Call 1 QueryControllerCP,
        Call 1 ComponentDisconnect, Call 1 ControllerDisconnect,
        Call 1 ControllerTerminate, Call 1 ComponentTerminate, ModuleRelease ''demo.vst3'']) \<and>
   unload_twice (stub_env accept_all) 1 active_world = Inl InvalidHandle"
proof -
  have live: "(1::nat) \<noteq> nullptr" by (simp add: nullptr_def)
  have held: "heap active_world 1 = Some configured_plugin"
    by (simp add: active_world_def configured_world_def)
  have calls: "unload_calls (stub_env accept_all) 1 configured_plugin tr =
       [Call 1 QueryComponentCP, Call 1 QueryControllerCP,
        Call 1 ComponentDisconnect, Call 1 ControllerDisconnect,
        Call 1 ControllerTerminate, Call 1 ComponentTerminate, ModuleRelease ''demo.vst3'']" for tr
    by (simp add: unload_calls_def configured_plugin_def demo_plugin_def new_plugin_def
        stub_env_def)
  have tr: "trace active_world = active_trace" by (simp add: active_world_def)
  note inst = unload_releases_once [OF live held, of "stub_env accept_all"]
  have a: "unload_twice (stub_env accept_all) nullptr active_world = Inr active_world"
    using inst by blast
  have b: "unload_twice (stub_env accept_all) 1 active_world = Inl InvalidHandle"
    using inst by blast
  have c: "vst3_unload_plugin (stub_env accept_all) 1 active_world =
           Inr (active_world\<lparr>heap := (heap active_world)(1 := None),
                  trace := trace active_world @
                    unload_calls (stub_env accept_all) 1 configured_plugin (trace active_world)\<rparr>)"
    using inst by blast
  have d: "map_sum id trace (vst3_unload_plugin (stub_env accept_all) 1 active_world) =
     Inr (active_trace @
       [Call 1 QueryComponentCP, Call 1 QueryControllerCP,
        Call 1 ComponentDisconnect, Call 1 ControllerDisconnect,
        Call 1 ControllerTerminate, Call 1 ComponentTerminate, ModuleRelease ''demo.vst3''])"
    unfolding c calls by (simp add: tr)
  show ?thesis using a b d by blast
qed

text \<open>
  The claim as stated fails: the second of two unloads of the handle that loading
  \<^verbatim>\<open>demo.vst3\<close> returned reads the struct the first one deleted.
\<close>

theorem unload_twice_counterexample:
  "vst3_load_plugin (stub_env accept_all) (Some ''demo.vst3'') world0 = (1, demo_world) \<and>
   vst3_unload_plugin (stub_env accept_all) 1 demo_world = Inr unloaded_world \<and>
   vst3_unload_plugin (stub_env accept_all) 1 unloaded_world = Inl InvalidHandle"
proof -
  have live: "(1::nat) \<noteq> nullptr" by (simp add: nullptr_def)
  have calls: "unload_calls (stub_env accept_all) 1 demo_plugin tr =
       [Call 1 QueryComponentCP, Call 1 QueryControllerCP,
        Call 1 ComponentDisconnect, Call 1 ControllerDisconnect,
        Call 1 ControllerTerminate, Call 1 ComponentTerminate, ModuleRelease ''demo.vst3'']" for tr
    by (simp add: unload_calls_def demo_plugin_def new_plugin_def stub_env_def)
  have first: "vst3_unload_plugin (stub_env accept_all) 1 demo_world = Inr unloaded_world"
    unfolding unload_live [OF live demo_heap] calls
    by (simp add: demo_world_def unloaded_world_def)
  have second: "vst3_unload_plugin (stub_env accept_all) 1 unloaded_world = Inl InvalidHandle"
    by (simp add: vst3_unload_plugin_def unloaded_world_def nullptr_def)
  show ?thesis using demo_load first second by simp
qed

section \<open>Activation\<close>

lemma component_active_set_active:
  "component_active env h (tr @ [Call h (ComponentSetActive b)]) =
     (if tresult_of env tr h (ComponentSetActive b) = kResultOk then b
      else component_active env h tr)"
  by (simp add: component_active_def accepted_set_active_def)

lemma component_active_set_processing:
  "component_active env h (tr @ [Call h' (SetProcessing b)]) = component_active env h tr"
  by (simp add: component_active_def accepted_set_active_def)

text \<open>
  Claim C4, as the code has it. For a live instance with component and processor,
  \<^verbatim>\<open>vst3_set_active\<close> with a non-zero flag first asks the component. If the component
  rejects, the function returns -1, the processor is not asked and the component's
  activation is as before. If the component accepts and the processor rejects, the
  function returns -1 after these two calls and makes no further call: the component
  stays active. If both accept it returns 0. The host's own struct is the same in all
  three cases.
\<close>

theorem set_active_failure_no_rollback:
  assumes "plugin \<noteq> nullptr" and "heap w plugin = Some p"
    and "component p" and "processor p"
  shows "map_option heap (after (vst3_set_active env plugin True w)) = Some (heap w) \<and>
    (if tresult_of env (trace w) plugin (ComponentSetActive True) \<noteq> kResultOk
     then returned (vst3_set_active env plugin True w) = Some (- 1) \<and>
          map_option trace (after (vst3_set_active env plugin True w)) =
            Some (trace w @ [Call plugin (ComponentSetActive True)]) \<and>
          component_active env plugin (trace w @ [Call plugin (ComponentSetActive True)]) =
            component_active env plugin (trace w)
     else if tresult_of env (trace w @ [Call plugin (ComponentSetActive True)]) plugin
               (SetProcessing True) \<noteq> kResultOk
     then returned (vst3_set_active env plugin True w) = Some (- 1) \<and>
          map_option trace (after (vst3_set_active env plugin True w)) =
            Some (trace w @
              [Call plugin (ComponentSetActive True), Call plugin (SetProcessing True)]) \<and>
          component_active env plugin
            (trace w @ [Call plugin (ComponentSetActive True), Call plugin (SetProcessing True)])
     else returned (vst3_set_active env plugin True w) = Some 0 \<and>
          map_option trace (after (vst3_set_active env plugin True w)) =
            Some (trace w @
              [Call plugin (ComponentSetActive True), Call plugin (SetProcessing True)]) \<and>
          component_active env plugin
            (trace w @ [Call plugin (ComponentSetActive True), Call plugin (SetProcessing True)]))"
proof -
  have two: "tr @ [a, b] = (tr @ [a]) @ [b]" for tr :: "trace_event list" and a b
    by simp
  show ?thesis
    using assms
    by (simp add: vst3_set_active_def returned_def after_def record_call_def report_def Let_def
        component_active_set_active two component_active_set_processing del: append_assoc)
qed


lemma configured_held: "heap configured_world 1 = Some configured_plugin"
  by (simp add: configured_world_def)

lemma configured_plugin_interfaces:
  "component configured_plugin" "processor configured_plugin" "controller configured_plugin"
  by (simp_all add: configured_plugin_def demo_plugin_def)

theorem set_active_failure_no_rollback_witness:
  "returned (vst3_set_active (stub_env reject_activate) 1 True configured_world) = Some (- 1) \<and>
   map_option trace (after (vst3_set_active (stub_env reject_activate) 1 True configured_world)) =
     Some (demo_trace @ setup_calls @ [Call 1 (ComponentSetActive True)]) \<and>
   returned (vst3_set_active (stub_env reject_start) 1 True configured_world) = Some (- 1) \<and>
   map_option trace (after (vst3_set_active (stub_env reject_start) 1 True configured_world)) =
     Some (demo_trace @ setup_calls @
       [Call 1 (ComponentSetActive True), Call 1 (SetProcessing True)]) \<and>
   component_active (stub_env reject_start) 1
     (demo_trace @ setup_calls @ [Call 1 (ComponentSetActive True), Call 1 (SetProcessing True)])"
proof -
  have live: "(1::nat) \<noteq> nullptr" by (simp add: nullptr_def)
  have tr: "trace configured_world = demo_trace @ setup_calls"
    by (simp add: configured_world_def)
  have act: "tresult_of (stub_env reject_activate) t h (ComponentSetActive b) \<noteq> kResultOk"
    for t h b
    by (simp add: stub_env_def reject_activate_def kResultOk_def)
  have start: "tresult_of (stub_env reject_start) t h (ComponentSetActive b) = kResultOk"
    "tresult_of (stub_env reject_start) t h (SetProcessing b) \<noteq> kResultOk" for t h b
    by (simp_all add: stub_env_def reject_start_def kResultOk_def)
  show ?thesis
    using set_active_failure_no_rollback [OF live configured_held configured_plugin_interfaces(1,2),
        of "stub_env reject_activate"]
      set_active_failure_no_rollback [OF live configured_held configured_plugin_interfaces(1,2),
        of "stub_env reject_start"]
    by (simp add: tr act start)
qed

text \<open>
  The claim as stated fails: on the set-up demo instance, with a processor that rejects
  \<^verbatim>\<open>setProcessing(true)\<close>, \<^verbatim>\<open>vst3_set_active\<close> returns -1 and the last thing the
  component accepted is \<^verbatim>\<open>setActive(true)\<close>; no \<^verbatim>\<open>setActive(false)\<close> follows it.
\<close>

theorem set_active_counterexample:
  "vst3_setup_processing (stub_env reject_start) 1 44100 512 demo_world =
     Inr (0, configured_world) \<and>
   configured (stub_env reject_start) 1 (trace configured_world) \<and>
   component_active (stub_env reject_start) 1 (trace configured_world) = False \<and>
   vst3_set_active (stub_env reject_start) 1 True configured_world =
     Inr (- 1, configured_world
        \<lparr>trace := demo_trace @ setup_calls @
            [Call 1 (ComponentSetActive True), Call 1 (SetProcessing True)],
         err_log := [StartProcessingFailed]\<rparr>) \<and>
   component_active (stub_env reject_start) 1
     (demo_trace @ setup_calls @ [Call 1 (ComponentSetActive True), Call 1 (SetProcessing True)])"
proof -
  have ok: "reject_start (SetupProcessing 44100 512) = kResultOk"
    by (simp add: reject_start_def)
  have conf: "configured (stub_env reject_start) 1 (trace configured_world)"
    by (simp add: configured_def configured_world_def demo_trace_def setup_calls_def
        accepted_setup_def stub_env_def reject_start_def)
  have idle: "component_active (stub_env reject_start) 1 (trace configured_world) = False"
    by (simp add: component_active_def configured_world_def demo_trace_def setup_calls_def
        accepted_set_active_def)
  have run: "vst3_set_active (stub_env reject_start) 1 True configured_world =
     Inr (- 1, configured_world
        \<lparr>trace := demo_trace @ setup_calls @
            [Call 1 (ComponentSetActive True), Call 1 (SetProcessing True)],
         err_log := [StartProcessingFailed]\<rparr>)"
    using configured_plugin_interfaces
    by (simp add: vst3_set_active_def world_ops stub_env_def reject_start_def nullptr_def
        configured_world_def kResultOk_def Let_def)
  have left: "component_active (stub_env reject_start) 1
     (demo_trace @ setup_calls @ [Call 1 (ComponentSetActive True), Call 1 (SetProcessing True)])"
    by (simp add: component_active_def accepted_set_active_def stub_env_def reject_start_def
        kResultOk_def)
  show ?thesis
    using configured_reach [of reject_start] ok conf idle run left by simp
qed

section \<open>Loading\<close>

text \<open>
  When the component names no controller class, or the factory creates no controller, the
  instance has a null controller pointer, and the parameter count of such an instance is
  0 without a call into the plug-in.
\<close>

lemma load_controller_absent:
  assumes "tresult_of env (trace w) h GetControllerClassId \<noteq> kResultOk \<or>
           \<not> creates env (trace w @ [Call h GetControllerClassId]) h
               (CreateController (cid_of env (trace w) h GetControllerClassId))"
  shows "fst (load_controller env h w) = False"
  using assms by (auto simp add: load_controller_def record_call_def Let_def)

lemma parameter_count_without_controller:
  assumes "heap w plugin = Some p" and "\<not> controller p"
  shows "vst3_get_parameter_count env plugin w = Inr (0, w)"
  using assms by (simp add: vst3_get_parameter_count_def)

text \<open>
  Claim C5 at a failing input. The controller of \<^verbatim>\<open>demo.vst3\<close> is created and its
  \<^verbatim>\<open>initialize\<close> answers 1. Loading succeeds with the same calls as for a controller that
  initializes, the instance keeps the controller, and \<^verbatim>\<open>vst3_get_parameter_count\<close> asks
  it and returns its 3 parameters.
\<close>

theorem failed_controller_init_is_kept:
  "vst3_load_plugin (stub_env reject_controller_init) (Some ''demo.vst3'') world0 =
     (1, demo_world) \<and>
   map_option controller (heap demo_world 1) = Some True \<and>
   vst3_get_parameter_count (stub_env reject_controller_init) 1 demo_world =
     Inr (3, demo_world\<lparr>trace := demo_trace @ [Call 1 GetParameterCount]\<rparr>)"
proof -
  have load: "vst3_load_plugin (stub_env reject_controller_init) (Some ''demo.vst3'') world0 =
     (1, demo_world)"
    by (simp add: vst3_load_plugin_def instantiate_def load_controller_def query_bus_def
      world_ops stub_defs reject_controller_init_def world0_def demo_world_def demo_trace_def
      demo_plugin_def Let_def)
  have kept: "map_option controller (heap demo_world 1) = Some True"
    using demo_heap by (simp add: demo_plugin_def)
  have count: "vst3_get_parameter_count (stub_env reject_controller_init) 1 demo_world =
     Inr (3, demo_world\<lparr>trace := demo_trace @ [Call 1 GetParameterCount]\<rparr>)"
    using demo_heap
    by (simp add: vst3_get_parameter_count_def nullptr_def demo_plugin_def stub_env_def
        stub_count_def record_call_def demo_world_def)
  show ?thesis using load kept count by simp
qed

text \<open>
  The other half of the claim holds: with a component that names no controller class,
  loading \<^verbatim>\<open>demo.vst3\<close> succeeds and the parameter count of the instance is 0.
\<close>

lemma load_without_controller_class:
  "fst (vst3_load_plugin (stub_env reject_controller_class) (Some ''demo.vst3'') world0) = 1 \<and>
   map_option controller
     (heap (snd (vst3_load_plugin (stub_env reject_controller_class) (Some ''demo.vst3'') world0)) 1)
     = Some False \<and>
   returned (vst3_get_parameter_count (stub_env reject_controller_class) 1
     (snd (vst3_load_plugin (stub_env reject_controller_class) (Some ''demo.vst3'') world0)))
     = Some 0"
  by (simp add: vst3_load_plugin_def instantiate_def load_controller_def query_bus_def
      world_ops stub_defs reject_controller_class_def world0_def new_plugin_def
      vst3_get_parameter_count_def returned_def Let_def)

section \<open>Parameters\<close>


lemma stored_value_after_query:
  "stored_value answer (tr @ [Call h' QueryComponentCP]) h i = stored_value answer tr h i"
  by (simp add: stored_value_def accepted_set_param_def)



lemma bare_load:
  "vst3_load_plugin (stub_env reject_controller_class) (Some ''demo.vst3'') world0 =
     (1, bare_world)"
  by (simp add: vst3_load_plugin_def instantiate_def load_controller_def query_bus_def
      world_ops stub_defs reject_controller_class_def world0_def bare_world_def
      bare_plugin_def new_plugin_def Let_def)






section \<open>Class selection\<close>

lemma find_audio_effect_first:
  assumes "ci_category c = kVstAudioEffectClass"
    and "\<forall>x\<in>set pre. ci_category x \<noteq> kVstAudioEffectClass"
  shows "find_audio_effect (pre @ c # post) = Some c"
  using assms by (induction pre) simp_all

lemma find_audio_effect_none:
  "find_audio_effect cs = None \<longleftrightarrow> (\<forall>x\<in>set cs. ci_category x \<noteq> kVstAudioEffectClass)"
  by (induction cs) simp_all

lemma find_audio_effect_some:
  assumes "find_audio_effect cs = Some c"
  shows "\<exists>pre post. cs = pre @ c # post \<and> ci_category c = kVstAudioEffectClass \<and>
           (\<forall>x\<in>set pre. ci_category x \<noteq> kVstAudioEffectClass)"
  using assms
proof (induction cs)
  case Nil
  then show ?case by simp
next
  case (Cons a cs)
  show ?case
  proof (cases "ci_category a = kVstAudioEffectClass")
    case True
    with Cons.prems have "a = c" by simp
    with True have "a # cs = [] @ c # cs \<and> ci_category c = kVstAudioEffectClass \<and>
        (\<forall>x\<in>set []. ci_category x \<noteq> kVstAudioEffectClass)" by simp
    then show ?thesis by blast
  next
    case False
    with Cons.prems have "find_audio_effect cs = Some c" by simp
    from Cons.IH [OF this] obtain pre post where
      "cs = pre @ c # post" "ci_category c = kVstAudioEffectClass"
      "\<forall>x\<in>set pre. ci_category x \<noteq> kVstAudioEffectClass" by blast
    with False have "a # cs = (a # pre) @ c # post \<and> ci_category c = kVstAudioEffectClass \<and>
        (\<forall>x\<in>set (a # pre). ci_category x \<noteq> kVstAudioEffectClass)" by simp
    then show ?thesis by blast
  qed
qed

text \<open>The calls of the controller block and of a bus query only extend the trace.\<close>

lemma load_controller_trace:
  "\<exists>xs. trace (snd (load_controller env h w)) = trace w @ xs"
  by (simp add: load_controller_def record_call_def Let_def)

lemma query_bus_trace:
  "\<exists>xs. trace (snd (query_bus env h dir n cur w)) = trace w @ xs"
  by (simp add: query_bus_def record_call_def Let_def)

text \<open>The first call of an instantiation creates the component of the chosen class.\<close>

lemma instantiate_first_call:
  "\<exists>rest. trace (snd (instantiate env path c w)) =
     trace w @ Call (Suc (allocated w)) (CreateComponent (ci_ID c)) # rest"
proof -
  let ?h = "Suc (allocated w)"
  let ?w4 = "record_call ?h QueryAudioProcessor (record_call ?h ComponentInitialize
              (record_call ?h (CreateComponent (ci_ID c)) (w\<lparr>allocated := ?h\<rparr>)))"
  obtain ctl w5 where lc: "load_controller env ?h ?w4 = (ctl, w5)" by (cases "load_controller env ?h ?w4")
  obtain xs where t5: "trace w5 = trace ?w4 @ xs"
    using load_controller_trace [of env ?h ?w4] lc by auto
  let ?w7 = "record_call ?h (GetBusCount kOutput) (record_call ?h (GetBusCount kInput) w5)"
  let ?nin = "count_of env (trace w5) ?h (GetBusCount kInput)"
  let ?nout = "count_of env (trace (record_call ?h (GetBusCount kInput) w5)) ?h (GetBusCount kOutput)"
  obtain n_in w8 where q1: "query_bus env ?h kInput ?nin 0 ?w7 = (n_in, w8)"
    by (cases "query_bus env ?h kInput ?nin 0 ?w7")
  obtain ys where t8: "trace w8 = trace ?w7 @ ys"
    using query_bus_trace [of env ?h kInput ?nin 0 ?w7] q1 by auto
  obtain n_out w9 where q2: "query_bus env ?h kOutput ?nout 0 w8 = (n_out, w9)"
    by (cases "query_bus env ?h kOutput ?nout 0 w8")
  obtain zs where t9: "trace w9 = trace w8 @ zs"
    using query_bus_trace [of env ?h kOutput ?nout 0 w8] q2 by auto
  show ?thesis
    using lc q1 q2 t5 t8 t9
    by (simp add: instantiate_def world_ops Let_def)
qed


text \<open>
  Claim C8. Let the module at the path load and expose a class list. If the list holds a
  class whose category is the audio effect category, the loader takes the first such
  class in list order, whatever stands after it: the list splits into classes of other
  categories, the chosen class and a rest, and the first call into the module creates
  the component with the chosen class's id. If the list holds no such class, the load
  returns the null handle, reports that no audio effect class was found, and makes no
  call into the plug-in.
\<close>

theorem first_match_wins:
  assumes "module_classes env path = Some classInfos"
  shows
    "if \<exists>x\<in>set classInfos. ci_category x = kVstAudioEffectClass
     then \<exists>pre c post.
            classInfos = pre @ c # post \<and> ci_category c = kVstAudioEffectClass \<and>
            (\<forall>x\<in>set pre. ci_category x \<noteq> kVstAudioEffectClass) \<and>
            find_audio_effect classInfos = Some c \<and>
            vst3_load_plugin env (Some path) w =
              instantiate env path c
                (w\<lparr>gHostContext := True, trace := trace w @ [ModuleCreate path]\<rparr>) \<and>
            (\<exists>rest. trace (snd (vst3_load_plugin env (Some path) w)) =
               trace w @ ModuleCreate path #
                 Call (Suc (allocated w)) (CreateComponent (ci_ID c)) # rest)
     else vst3_load_plugin env (Some path) w =
            (nullptr,
             w\<lparr>gHostContext := True,
               trace := trace w @ [ModuleCreate path, ModuleRelease path],
               err_log := err_log w @ [NoAudioEffectClass]\<rparr>)"
proof (cases "find_audio_effect classInfos")
  case None
  then have no: "\<not> (\<exists>x\<in>set classInfos. ci_category x = kVstAudioEffectClass)"
    by (simp add: find_audio_effect_none)
  have "vst3_load_plugin env (Some path) w =
            (nullptr,
             w\<lparr>gHostContext := True,
               trace := trace w @ [ModuleCreate path, ModuleRelease path],
               err_log := err_log w @ [NoAudioEffectClass]\<rparr>)"
    using assms None by (simp add: vst3_load_plugin_def world_ops Let_def)
  with no show ?thesis by simp
next
  case (Some c)
  from find_audio_effect_some [OF Some] obtain pre post where split:
    "classInfos = pre @ c # post" "ci_category c = kVstAudioEffectClass"
    "\<forall>x\<in>set pre. ci_category x \<noteq> kVstAudioEffectClass" by blast
  let ?w1 = "w\<lparr>gHostContext := True, trace := trace w @ [ModuleCreate path]\<rparr>"
  have load: "vst3_load_plugin env (Some path) w = instantiate env path c ?w1"
    using assms Some by (simp add: vst3_load_plugin_def Let_def)
  obtain rest where "trace (snd (instantiate env path c ?w1)) =
      trace ?w1 @ Call (Suc (allocated ?w1)) (CreateComponent (ci_ID c)) # rest"
    using instantiate_first_call [of env path c ?w1] by blast
  then have first: "\<exists>rest. trace (snd (vst3_load_plugin env (Some path) w)) =
      trace w @ ModuleCreate path # Call (Suc (allocated w)) (CreateComponent (ci_ID c)) # rest"
    by (simp add: load)
  have some: "\<exists>x\<in>set classInfos. ci_category x = kVstAudioEffectClass"
    using split by auto
  show ?thesis
    using some split Some load first by (simp only: if_True) blast
qed


theorem first_match_wins_witness:
  "(\<exists>rest. trace (snd (vst3_load_plugin (stub_env accept_all) (Some ''demo.vst3'') world0)) =
      ModuleCreate ''demo.vst3'' # Call 1 (CreateComponent ''B'') # rest) \<and>
   vst3_load_plugin (stub_env accept_all) (Some ''tools.vst3'') world0 =
     (nullptr,
      \<lparr>gHostContext = True, heap = (\<lambda>_. None), allocated = 0,
       trace = [ModuleCreate ''tools.vst3'', ModuleRelease ''tools.vst3''],
       err_log = [NoAudioEffectClass]\<rparr>)"
proof -
  let ?env = "stub_env accept_all"
  have demo: "module_classes ?env ''demo.vst3'' = Some [class_B, class_A, class_C]"
    by (simp add: stub_env_def stub_classes_def)
  have tools: "module_classes ?env ''tools.vst3'' = Some [class_A]"
    by (simp add: stub_env_def stub_classes_def)
  have effect_B: "ci_category class_B = kVstAudioEffectClass"
    by (simp add: class_B_def)
  have other_A: "ci_category class_A \<noteq> kVstAudioEffectClass"
    by (simp add: class_A_def kVstAudioEffectClass_def)
  have some: "\<exists>x\<in>set [class_B, class_A, class_C]. ci_category x = kVstAudioEffectClass"
    using effect_B by simp
  have none: "\<not> (\<exists>x\<in>set [class_A]. ci_category x = kVstAudioEffectClass)"
    using other_A by simp
  from first_match_wins [OF demo, of world0, unfolded if_P [OF some]]
  obtain pre c post rest where
    split: "[class_B, class_A, class_C] = pre @ c # post"
    and pre: "\<forall>x\<in>set pre. ci_category x \<noteq> kVstAudioEffectClass"
    and tr: "trace (snd (vst3_load_plugin ?env (Some ''demo.vst3'') world0)) =
       trace world0 @ ModuleCreate ''demo.vst3'' #
         Call (Suc (allocated world0)) (CreateComponent (ci_ID c)) # rest"
    by blast
  have "c = class_B"
  proof (cases pre)
    case Nil
    with split show ?thesis by simp
  next
    case (Cons a as)
    with split have "a = class_B" by simp
    with Cons pre effect_B show ?thesis by simp
  qed
  with tr have first: "\<exists>rest. trace (snd (vst3_load_plugin ?env (Some ''demo.vst3'') world0)) =
      ModuleCreate ''demo.vst3'' # Call 1 (CreateComponent ''B'') # rest"
    by (simp add: world0_def class_B_def)
  have fail: "vst3_load_plugin ?env (Some ''tools.vst3'') world0 =
     (nullptr,
      \<lparr>gHostContext = True, heap = (\<lambda>_. None), allocated = 0,
       trace = [ModuleCreate ''tools.vst3'', ModuleRelease ''tools.vst3''],
       err_log = [NoAudioEffectClass]\<rparr>)"
    using first_match_wins [OF tools, of world0, unfolded if_not_P [OF none]]
    by (simp add: world0_def)
  show ?thesis using first fail by blast
qed

section \<open>Processing setup\<close>

lemma activate_buses_trace:
  "activate_buses h p w = w\<lparr>trace := trace w @ bus_activations h p\<rparr>"
  by (simp add: activate_buses_def bus_activations_def record_call_def Let_def)

text \<open>
  Claim C10. For a live instance with component and processor, when the processor rejects
  the setup, \<^verbatim>\<open>vst3_setup_processing\<close> returns -1 and reports the failure; by then the
  instance's \<^verbatim>\<open>sample_rate\<close> and \<^verbatim>\<open>max_block_size\<close> hold the rejected values and the bus
  of each side that has channels has been activated. Nothing is undone, and the process
  data is not prepared.
\<close>

theorem setup_rejected_not_atomic:
  assumes "plugin \<noteq> nullptr" and "heap w plugin = Some p"
    and "processor p" and "component p"
    and "tresult_of env (trace w @ bus_activations plugin p) plugin
           (SetupProcessing rate n) \<noteq> kResultOk"
  shows "vst3_setup_processing env plugin rate n w =
           Inr (- 1,
             w\<lparr>heap := (heap w)(plugin \<mapsto> p\<lparr>sample_rate := rate, max_block_size := n\<rparr>),
               trace := trace w @ bus_activations plugin p @
                 [Call plugin (SetupProcessing rate n)],
               err_log := err_log w @ [SetupProcessingFailed]\<rparr>) \<and>
         (0 < num_inputs p \<longrightarrow> Call plugin (ActivateBus kInput True) \<in> set (bus_activations plugin p)) \<and>
         (0 < num_outputs p \<longrightarrow> Call plugin (ActivateBus kOutput True) \<in> set (bus_activations plugin p))"
proof -
  have acts: "bus_activations plugin (p\<lparr>sample_rate := rate, max_block_size := n\<rparr>) =
      bus_activations plugin p"
    by (simp add: bus_activations_def)
  have run: "vst3_setup_processing env plugin rate n w =
           Inr (- 1,
             w\<lparr>heap := (heap w)(plugin \<mapsto> p\<lparr>sample_rate := rate, max_block_size := n\<rparr>),
               trace := trace w @ bus_activations plugin p @
                 [Call plugin (SetupProcessing rate n)],
               err_log := err_log w @ [SetupProcessingFailed]\<rparr>)"
    using assms
    by (simp add: vst3_setup_processing_def activate_buses_trace acts store_def record_call_def
        report_def Let_def)
  show ?thesis using run by (simp add: bus_activations_def)
qed

theorem setup_rejected_not_atomic_witness:
  "vst3_setup_processing (stub_env reject_setup) 1 96000 256 demo_world =
     Inr (- 1,
       demo_world
        \<lparr>heap := (heap demo_world)(1 \<mapsto> demo_plugin\<lparr>sample_rate := 96000, max_block_size := 256\<rparr>),
         trace := demo_trace @
           [Call 1 (ActivateBus kInput True), Call 1 (ActivateBus kOutput True),
            Call 1 (SetupProcessing 96000 256)],
         err_log := [SetupProcessingFailed]\<rparr>)"
proof -
  have live: "(1::nat) \<noteq> nullptr" by (simp add: nullptr_def)
  have ifc: "processor demo_plugin" "component demo_plugin"
    by (simp_all add: demo_plugin_def)
  have rej: "tresult_of (stub_env reject_setup) t 1 (SetupProcessing 96000 256) \<noteq> kResultOk" for t
    by (simp add: stub_env_def reject_setup_def kResultOk_def)
  have acts: "bus_activations 1 demo_plugin =
      [Call 1 (ActivateBus kInput True), Call 1 (ActivateBus kOutput True)]"
    by (simp add: bus_activations_def demo_plugin_def)
  have log: "trace demo_world = demo_trace" "err_log demo_world = []"
    by (simp_all add: demo_world_def)
  note inst = setup_rejected_not_atomic [OF live demo_heap ifc rej]
  from inst have "vst3_setup_processing (stub_env reject_setup) 1 96000 256 demo_world =
     Inr (- 1,
       demo_world
        \<lparr>heap := (heap demo_world)(1 \<mapsto> demo_plugin\<lparr>sample_rate := 96000, max_block_size := 256\<rparr>),
         trace := trace demo_world @ bus_activations 1 demo_plugin @
                 [Call 1 (SetupProcessing 96000 256)],
         err_log := err_log demo_world @ [SetupProcessingFailed]\<rparr>)"
    by blast
  then show ?thesis unfolding acts log by simp
qed

end
